theory Spec2Isabelle
  imports Main
begin

unbundle bit_operations_syntax

section \<open>The program chbreak.c and its environment\<close>

text \<open>
  chbreak.c is one function, \<open>main\<close>: a straight line of system calls, each followed by
  a test of its return value. The model keeps that shape. The operating system is a
  parameter (a record of the system calls the program uses, over a kernel state of any
  type), the run threads a \<open>world\<close> (the kernel state and the chronological list of
  everything the process did: system calls with their results, writes to the two stdio
  streams, flushes), and \<open>exit\<close>, \<open>return\<close> and a successful \<open>execl\<close> are the three ways
  a run ends.
\<close>

subsection \<open>Constants and types of the C headers\<close>

type_synonym errno = int

definition ENOENT :: errno where
  "ENOENT = 2"

definition O_RDONLY :: nat where
  "O_RDONLY = 0"

record stat =
  st_dev :: nat
  st_ino :: nat
  st_mode :: nat

text \<open>\<open>S_ISDIR(m)\<close> is \<open>((m) & S_IFMT) == S_IFDIR\<close>, with \<open>S_IFMT = 0170000\<close> and
  \<open>S_IFDIR = 0040000\<close>.\<close>

definition S_ISDIR :: "nat \<Rightarrow> bool" where
  "S_ISDIR m = (m AND 61440 = 16384)"

subsection \<open>Configuration macros (chbreak.c, lines 46 and 48)\<close>

text \<open>A macro is either undefined (\<open>None\<close>) or defined with a value; \<open>#ifdef\<close> tests
  only whether it is defined.\<close>

definition NEED_FCHDIR :: "int option" where
  "NEED_FCHDIR = Some 0"

definition TEMP_DIR :: string where
  "TEMP_DIR = ''waterbuffalo''"

definition ifdef :: "int option \<Rightarrow> bool" where
  "ifdef m = (m \<noteq> None)"

subsection \<open>The operating system as a parameter\<close>

text \<open>
  A system call takes the kernel state and returns its result and the new state.
  \<open>Inl e\<close> is the return value \<open>-1\<close> with \<open>errno = e\<close>; \<open>Inr v\<close> is a successful return
  (\<open>0\<close>, or the non-negative descriptor \<open>v\<close>, or the filled \<open>struct stat\<close>). A directory
  stream (\<open>DIR *\<close>) is the finite list of names that successive \<open>readdir\<close> calls return
  before \<open>NULL\<close>. \<open>execl\<close> returns only when it fails; \<open>Inr ()\<close> means the process image
  was replaced.
\<close>

record 's kernel =
  k_stat :: "string \<Rightarrow> 's \<Rightarrow> (errno + stat) \<times> 's"
  k_mkdir :: "string \<Rightarrow> nat \<Rightarrow> 's \<Rightarrow> (errno + unit) \<times> 's"
  k_open :: "string \<Rightarrow> nat \<Rightarrow> 's \<Rightarrow> (errno + nat) \<times> 's"
  k_chroot :: "string \<Rightarrow> 's \<Rightarrow> (errno + unit) \<times> 's"
  k_geteuid :: "'s \<Rightarrow> nat"
  k_fchdir :: "nat \<Rightarrow> 's \<Rightarrow> (errno + unit) \<times> 's"
  k_close :: "nat \<Rightarrow> 's \<Rightarrow> (errno + unit) \<times> 's"
  k_chdir :: "string \<Rightarrow> 's \<Rightarrow> (errno + unit) \<times> 's"
  k_opendir :: "string \<Rightarrow> 's \<Rightarrow> (errno + string list) \<times> 's"
  k_execl :: "string \<Rightarrow> string list \<Rightarrow> 's \<Rightarrow> (errno + unit) \<times> 's"
  k_strerror :: "errno \<Rightarrow> string"

subsection \<open>What a run does: events and outcomes\<close>

datatype stream = Stdout | Stderr

datatype syscall =
    Stat string
  | Mkdir string nat
  | Open string nat
  | Chroot string
  | Geteuid
  | Fchdir nat
  | Close nat
  | Chdir string
  | Opendir string
  | Execl string "string list"

datatype sysret =
    Err errno
  | Ok
  | OkStat stat
  | OkFd nat
  | OkUid nat
  | OkDir "string list"

datatype event =
    Call syscall sysret
  | Write stream string
  | Flush stream

record 's world =
  kst :: 's
  events :: "event list"

text \<open>\<open>Exit n\<close>: the program called \<open>exit(n)\<close>. \<open>Return n\<close>: \<open>main\<close> returned \<open>n\<close>.
  \<open>Replaced path args\<close>: \<open>execl\<close> replaced the process image. \<open>Undefined_Behaviour\<close>:
  the program read \<open>argv\<close> past its terminating null pointer.\<close>

datatype outcome =
    Exit int
  | Return int
  | Replaced string "string list"
  | Undefined_Behaviour

definition emit :: "event \<Rightarrow> 's world \<Rightarrow> 's world" where
  "emit e w = w\<lparr>events := events w @ [e]\<rparr>"

definition do_call ::
  "syscall \<Rightarrow> ('a \<Rightarrow> sysret) \<Rightarrow> ('s \<Rightarrow> (errno + 'a) \<times> 's) \<Rightarrow> 's world \<Rightarrow> (errno + 'a) \<times> 's world"
where
  "do_call c ok k w =
     (case k (kst w) of
        (r, s') \<Rightarrow>
          (r, \<lparr>kst = s',
               events = events w @ [Call c (case r of Inl e \<Rightarrow> Err e | Inr v \<Rightarrow> ok v)]\<rparr>))"

definition sys_stat :: "'s kernel \<Rightarrow> string \<Rightarrow> 's world \<Rightarrow> (errno + stat) \<times> 's world" where
  "sys_stat K p = do_call (Stat p) OkStat (k_stat K p)"

definition sys_mkdir :: "'s kernel \<Rightarrow> string \<Rightarrow> nat \<Rightarrow> 's world \<Rightarrow> (errno + unit) \<times> 's world" where
  "sys_mkdir K p m = do_call (Mkdir p m) (\<lambda>_. Ok) (k_mkdir K p m)"

definition sys_open :: "'s kernel \<Rightarrow> string \<Rightarrow> nat \<Rightarrow> 's world \<Rightarrow> (errno + nat) \<times> 's world" where
  "sys_open K p fl = do_call (Open p fl) OkFd (k_open K p fl)"

definition sys_chroot :: "'s kernel \<Rightarrow> string \<Rightarrow> 's world \<Rightarrow> (errno + unit) \<times> 's world" where
  "sys_chroot K p = do_call (Chroot p) (\<lambda>_. Ok) (k_chroot K p)"

definition sys_geteuid :: "'s kernel \<Rightarrow> 's world \<Rightarrow> nat \<times> 's world" where
  "sys_geteuid K w =
     (k_geteuid K (kst w), emit (Call Geteuid (OkUid (k_geteuid K (kst w)))) w)"

definition sys_fchdir :: "'s kernel \<Rightarrow> nat \<Rightarrow> 's world \<Rightarrow> (errno + unit) \<times> 's world" where
  "sys_fchdir K fd = do_call (Fchdir fd) (\<lambda>_. Ok) (k_fchdir K fd)"

definition sys_close :: "'s kernel \<Rightarrow> nat \<Rightarrow> 's world \<Rightarrow> (errno + unit) \<times> 's world" where
  "sys_close K fd = do_call (Close fd) (\<lambda>_. Ok) (k_close K fd)"

definition sys_chdir :: "'s kernel \<Rightarrow> string \<Rightarrow> 's world \<Rightarrow> (errno + unit) \<times> 's world" where
  "sys_chdir K p = do_call (Chdir p) (\<lambda>_. Ok) (k_chdir K p)"

definition sys_opendir :: "'s kernel \<Rightarrow> string \<Rightarrow> 's world \<Rightarrow> (errno + string list) \<times> 's world" where
  "sys_opendir K p = do_call (Opendir p) OkDir (k_opendir K p)"

definition sys_execl ::
  "'s kernel \<Rightarrow> string \<Rightarrow> string list \<Rightarrow> 's world \<Rightarrow> (errno + unit) \<times> 's world"
where
  "sys_execl K p args = do_call (Execl p args) (\<lambda>_. Ok) (k_execl K p args)"

subsection \<open>stdio and libc\<close>

definition fprintf :: "stream \<Rightarrow> string \<Rightarrow> 's world \<Rightarrow> 's world" where
  "fprintf f msg = emit (Write f msg)"

definition printf :: "string \<Rightarrow> 's world \<Rightarrow> 's world" where
  "printf msg = fprintf Stdout msg"

definition fflush :: "stream \<Rightarrow> 's world \<Rightarrow> 's world" where
  "fflush f = emit (Flush f)"

definition exit :: "int \<Rightarrow> 's world \<Rightarrow> outcome \<times> 's world" where
  "exit n w = (Exit n, w)"

text \<open>\<open>strcmp\<close> on C strings (the bytes before the terminating NUL): zero exactly when
  the strings are equal, otherwise the sign of the first differing byte pair.\<close>

fun strcmp :: "string \<Rightarrow> string \<Rightarrow> int" where
  "strcmp [] [] = 0"
| "strcmp [] (b # bs) = - 1"
| "strcmp (a # as) [] = 1"
| "strcmp (a # as) (b # bs) =
     (if a = b then strcmp as bs
      else if (of_char a :: nat) < of_char b then - 1 else 1)"

text \<open>\<open>argv\<close> is an array of \<open>argc + 1\<close> pointers, the last one null. Reading index \<open>i\<close>
  gives a string for \<open>i < argc\<close>, the null pointer (\<open>Some None\<close>) for \<open>i = argc\<close>, and is
  an out-of-bounds read (\<open>None\<close>) beyond.\<close>

definition argv_at :: "string list \<Rightarrow> nat \<Rightarrow> string option option" where
  "argv_at argv i =
     (if i < length argv then Some (Some (argv ! i))
      else if i = length argv then Some None
      else None)"

subsection \<open>The program (chbreak.c, \<open>main\<close>)\<close>

text \<open>
  \<open>main\<close> is written as a chain of continuations, one per block of the source, each
  named after what its first statement does. A continuation is defined before the block
  that runs it, so the definitions below come in the reverse of the source order, which
  is: \<open>main_with\<close> (lines 60-63), \<open>ensure_staging\<close> (68-83), \<open>main_open\<close> (85-98),
  \<open>main_nest\<close> (103-132), \<open>main_escape\<close> (146-149), \<open>main_verify\<close> (151-161),
  \<open>main_listing\<close> (166-178), \<open>main_handoff\<close> (179-186).
\<close>

text \<open>Line 179: \<open>!argv[0] || !argv[1] || 0 != strcmp(argv[1], "--no-shell")\<close>.
  A C expression of type \<open>int\<close> used as a condition is modelled as a \<open>bool option\<close>,
  \<open>None\<close> for undefined behaviour. \<open>||\<close> evaluates its right operand only when the
  left one is false, so an undefined right operand does no harm behind a true left one.
  \<open>!p\<close> tests a pointer read from \<open>argv\<close>; \<open>strcmp\<close> dereferences it.\<close>

definition c_or :: "bool option \<Rightarrow> bool option \<Rightarrow> bool option" where
  "c_or a b = (case a of None \<Rightarrow> None | Some True \<Rightarrow> Some True | Some False \<Rightarrow> b)"

definition c_not_ptr :: "string option option \<Rightarrow> bool option" where
  "c_not_ptr p = (case p of None \<Rightarrow> None | Some None \<Rightarrow> Some True | Some (Some a) \<Rightarrow> Some False)"

definition strcmp_ne :: "string option option \<Rightarrow> string \<Rightarrow> bool option" where
  "strcmp_ne p b = (case p of Some (Some a) \<Rightarrow> Some (0 \<noteq> strcmp a b) | _ \<Rightarrow> None)"

definition handoff_guard :: "string list \<Rightarrow> bool option" where
  "handoff_guard argv =
     c_or (c_not_ptr (argv_at argv 0))
       (c_or (c_not_ptr (argv_at argv 1)) (strcmp_ne (argv_at argv 1) ''--no-shell''))"

text \<open>Lines 179-186. \<open>execl\<close> returns only when it fails, with \<open>-1\<close>; a process whose
  image has been replaced runs no further statement of \<open>main\<close>.\<close>

definition main_handoff :: "'s kernel \<Rightarrow> string list \<Rightarrow> 's world \<Rightarrow> outcome \<times> 's world" where
  "main_handoff K argv w =
     (case handoff_guard argv of
        None \<Rightarrow> (Undefined_Behaviour, w)
      | Some True \<Rightarrow>
          (case sys_execl K ''/bin/sh'' [''-i'']
                  (fprintf Stderr ''Running interactive shell outside chroot.\<newline>'' w) of
             (Inl e, w') \<Rightarrow>
               exit 1 (fprintf Stderr (''Failed to exec - '' @ k_strerror K e @ ''\<newline>'') w')
           | (Inr _, w') \<Rightarrow> (Replaced ''/bin/sh'' [''-i''], w'))
      | Some False \<Rightarrow> (Return 0, w))"

text \<open>Lines 174-176: \<open>while ((e = readdir(dir))) printf("%s\n", e->d_name);\<close> over the
  finite directory stream.\<close>

fun readdir_loop :: "string list \<Rightarrow> 's world \<Rightarrow> 's world" where
  "readdir_loop [] w = w"
| "readdir_loop (d_name # dir) w = readdir_loop dir (printf (d_name @ ''\<newline>'') w)"

text \<open>Lines 166-178. \<open>closedir\<close> releases the stream; the program ignores its result
  and the model has nothing to record for it.\<close>

definition main_listing :: "'s kernel \<Rightarrow> string list \<Rightarrow> 's world \<Rightarrow> outcome \<times> 's world" where
  "main_listing K argv w =
     (case sys_opendir K ''/'' w of
        (Inl e, w') \<Rightarrow>
          exit 1 (fprintf Stderr (''Failed to opendir /: '' @ k_strerror K e @ ''\<newline>'') w')
      | (Inr dir, w') \<Rightarrow>
          main_handoff K argv (readdir_loop dir (printf ''dir /:\<newline>'' w')))"

text \<open>Lines 151-161.\<close>

definition main_verify ::
  "'s kernel \<Rightarrow> string list \<Rightarrow> stat \<Rightarrow> 's world \<Rightarrow> outcome \<times> 's world"
where
  "main_verify K argv sbuf1 w =
     (case sys_stat K ''/'' (fflush Stdout w) of
        (Inl e, w') \<Rightarrow>
          exit 1 (fprintf Stderr (''Failed to stat2 /: '' @ k_strerror K e @ ''\<newline>'') w')
      | (Inr sbuf2, w') \<Rightarrow>
          if st_dev sbuf1 = st_dev sbuf2 \<and> st_ino sbuf1 = st_ino sbuf2
          then exit 1 (fprintf Stderr ''Breaking out of the chroot did not work.\<newline>'' w')
          else main_listing K argv
                 (fflush Stderr (fprintf Stderr ''Broken out of the chroot.\<newline>'' w')))"

text \<open>Lines 146-148: \<open>for(x=0;x<n;x++) chdir("..");\<close> with the bound \<open>n\<close> as a
  parameter (the source has 1024). The result of \<open>chdir\<close> is discarded.\<close>

function climb :: "'s kernel \<Rightarrow> nat \<Rightarrow> nat \<Rightarrow> 's world \<Rightarrow> 's world" where
  "climb K n x w = (if x < n then climb K n (x + 1) (snd (sys_chdir K ''..'' w)) else w)"
  by pat_completeness auto
termination
  by (relation "measure (\<lambda>(K, n, x, w). n - x)") auto

declare climb.simps [simp del]

text \<open>Lines 146-149, then the rest. The result of \<open>chroot(".")\<close> is discarded.\<close>

definition main_escape ::
  "'s kernel \<Rightarrow> string list \<Rightarrow> stat \<Rightarrow> 's world \<Rightarrow> outcome \<times> 's world"
where
  "main_escape K argv sbuf1 w =
     main_verify K argv sbuf1 (snd (sys_chroot K ''.'' (climb K 1024 0 w)))"

text \<open>Lines 103-132. \<open>dir_fd\<close> is read only under \<open>#ifdef NEED_FCHDIR\<close>.\<close>

definition main_nest ::
  "int option \<Rightarrow> 's kernel \<Rightarrow> string list \<Rightarrow> stat \<Rightarrow> nat \<Rightarrow> 's world \<Rightarrow> outcome \<times> 's world"
where
  "main_nest need_fchdir K argv sbuf1 dir_fd w =
     (case sys_chroot K TEMP_DIR w of
        (Inl e, w') \<Rightarrow>
          (case sys_geteuid K
                  (fprintf Stderr
                     (''Failed to chroot to '' @ TEMP_DIR @ '' - '' @ k_strerror K e @ ''\<newline>'') w') of
             (uid, w'') \<Rightarrow>
               exit 1
                 (if uid \<noteq> 0
                  then fprintf Stderr
                         ''Not running as root. Breaking out of chroot works as root.\<newline>'' w''
                  else w''))
      | (Inr _, w') \<Rightarrow>
          if ifdef need_fchdir
          then (case sys_fchdir K dir_fd w' of
                  (Inl e, w'') \<Rightarrow>
                    exit 1 (fprintf Stderr (''Failed to fchdir - '' @ k_strerror K e @ ''\<newline>'') w'')
                | (Inr _, w'') \<Rightarrow> main_escape K argv sbuf1 (snd (sys_close K dir_fd w'')))
          else main_escape K argv sbuf1 w')"

text \<open>Lines 85-98. Without \<open>NEED_FCHDIR\<close> there is no variable \<open>dir_fd\<close>; the value
  passed on then is never read.\<close>

definition main_open ::
  "int option \<Rightarrow> 's kernel \<Rightarrow> string list \<Rightarrow> stat \<Rightarrow> 's world \<Rightarrow> outcome \<times> 's world"
where
  "main_open need_fchdir K argv sbuf1 w =
     (if ifdef need_fchdir
      then (case sys_open K ''.'' O_RDONLY w of
              (Inl e, w') \<Rightarrow>
                exit 1
                  (fprintf Stderr
                     (''Failed to open \".\" for reading - '' @ k_strerror K e @ ''\<newline>'') w')
            | (Inr dir_fd, w') \<Rightarrow> main_nest need_fchdir K argv sbuf1 dir_fd w')
      else main_nest need_fchdir K argv sbuf1 0 w)"

text \<open>Lines 68-83, the preparation of the staging directory, as a step of its own:
  \<open>Inl\<close> is a run that ended, \<open>Inr ()\<close> one that goes on to line 85.\<close>

definition ensure_staging :: "'s kernel \<Rightarrow> 's world \<Rightarrow> (outcome + unit) \<times> 's world" where
  "ensure_staging K w =
     (case sys_stat K TEMP_DIR w of
        (Inl e, w') \<Rightarrow>
          if e = ENOENT
          then (case sys_mkdir K TEMP_DIR 493 w' of
                  (Inl e', w'') \<Rightarrow>
                    (Inl (Exit 1),
                     fprintf Stderr
                       (''Failed to create '' @ TEMP_DIR @ '' - '' @ k_strerror K e' @ ''\<newline>'') w'')
                | (Inr _, w'') \<Rightarrow> (Inr (), w''))
          else (Inl (Exit 1),
                fprintf Stderr
                  (''Failed to stat '' @ TEMP_DIR @ '' - '' @ k_strerror K e @ ''\<newline>'') w')
      | (Inr sbuf, w') \<Rightarrow>
          if \<not> S_ISDIR (st_mode sbuf)
          then (Inl (Exit 1),
                fprintf Stderr (''Error - '' @ TEMP_DIR @ '' is not a directory!\<newline>'') w')
          else (Inr (), w'))"

text \<open>Lines 60-83, then the rest; the macro \<open>NEED_FCHDIR\<close> is a parameter here.\<close>

definition main_with ::
  "int option \<Rightarrow> 's kernel \<Rightarrow> string list \<Rightarrow> 's \<Rightarrow> outcome \<times> 's world"
where
  "main_with need_fchdir K argv s =
     (case sys_stat K ''/'' \<lparr>kst = s, events = []\<rparr> of
        (Inl e, w) \<Rightarrow>
          exit 1 (fprintf Stderr (''Failed to stat1 /: '' @ k_strerror K e @ ''\<newline>'') w)
      | (Inr sbuf1, w) \<Rightarrow>
          (case ensure_staging K w of
             (Inl out, w') \<Rightarrow> (out, w')
           | (Inr _, w') \<Rightarrow> main_open need_fchdir K argv sbuf1 w'))"

text \<open>The program as compiled: \<open>#define NEED_FCHDIR 0\<close>.\<close>

definition main :: "'s kernel \<Rightarrow> string list \<Rightarrow> 's \<Rightarrow> outcome \<times> 's world" where
  "main K argv s = main_with NEED_FCHDIR K argv s"

subsection \<open>Observations on a run\<close>

text \<open>The system calls of a trace with their results, in order.\<close>

fun calls :: "event list \<Rightarrow> (syscall \<times> sysret) list" where
  "calls [] = []"
| "calls (Call c r # es) = (c, r) # calls es"
| "calls (Write f m # es) = calls es"
| "calls (Flush f # es) = calls es"

text \<open>The strings written to a stream, in order.\<close>

fun written :: "stream \<Rightarrow> event list \<Rightarrow> string list" where
  "written f [] = []"
| "written f (Write g m # es) = (if g = f then m # written f es else written f es)"
| "written f (Call c r # es) = written f es"
| "written f (Flush g # es) = written f es"

text \<open>The strings written to a stream after its last \<open>fflush\<close>: what may still sit in
  the stdio buffer of the stream at the end of the trace. The first argument is the
  list collected so far.\<close>

fun pending_from :: "string list \<Rightarrow> stream \<Rightarrow> event list \<Rightarrow> string list" where
  "pending_from acc f [] = acc"
| "pending_from acc f (Write g m # es) =
     pending_from (if g = f then acc @ [m] else acc) f es"
| "pending_from acc f (Flush g # es) = pending_from (if g = f then [] else acc) f es"
| "pending_from acc f (Call c r # es) = pending_from acc f es"

definition pending :: "stream \<Rightarrow> event list \<Rightarrow> string list" where
  "pending f es = pending_from [] f es"

fun failed :: "sysret \<Rightarrow> bool" where
  "failed (Err e) = True"
| "failed r = False"

text \<open>What follows the first element that satisfies \<open>P\<close>.\<close>

definition after :: "('a \<Rightarrow> bool) \<Rightarrow> 'a list \<Rightarrow> 'a list" where
  "after P xs = tl (dropWhile (\<lambda>x. \<not> P x) xs)"

text \<open>The loop of lines 146-148 seen from the kernel: the state after one
  \<open>chdir("..")\<close>, what that call returned, and the results of \<open>n\<close> calls in a row.\<close>

definition chdir_up :: "'s kernel \<Rightarrow> 's \<Rightarrow> 's" where
  "chdir_up K s = snd (k_chdir K ''..'' s)"

definition chdir_ret :: "'s kernel \<Rightarrow> 's \<Rightarrow> sysret" where
  "chdir_ret K s = (case fst (k_chdir K ''..'' s) of Inl e \<Rightarrow> Err e | Inr _ \<Rightarrow> Ok)"

primrec climb_rets :: "'s kernel \<Rightarrow> nat \<Rightarrow> 's \<Rightarrow> sysret list" where
  "climb_rets K 0 s = []"
| "climb_rets K (Suc n) s = chdir_ret K s # climb_rets K n (chdir_up K s)"

text \<open>The calls whose failure the program tests and treats as fatal: every call but
  \<open>chdir\<close>, \<open>chroot(".")\<close> and \<open>close\<close>, whose results it discards, and \<open>stat\<close> of the
  staging directory failing with \<open>ENOENT\<close>, which it answers with \<open>mkdir\<close>.\<close>

fun fatal_on_failure :: "syscall \<Rightarrow> errno \<Rightarrow> bool" where
  "fatal_on_failure (Chdir p) e = False"
| "fatal_on_failure (Close fd) e = False"
| "fatal_on_failure (Chroot p) e = (p = TEMP_DIR)"
| "fatal_on_failure (Stat p) e = (p = ''/'' \<or> e \<noteq> ENOENT)"
| "fatal_on_failure c e = True"

text \<open>The results of the status queries of \<open>"/"\<close> in a list of calls, in order.\<close>

definition root_stats :: "(syscall \<times> sysret) list \<Rightarrow> sysret list" where
  "root_stats cs = map snd (filter (\<lambda>x. fst x = Stat ''/'') cs)"

definition same_identity :: "stat \<Rightarrow> stat \<Rightarrow> bool" where
  "same_identity a b \<longleftrightarrow> st_dev a = st_dev b \<and> st_ino a = st_ino b"

subsection \<open>The traces of the program\<close>

text \<open>
  Whatever the kernel answers, a run of the compiled program ends in one of fourteen
  ways, and each way fixes the trace up to the values the kernel returned. The
  predicate \<open>run_shape\<close> lists them; \<open>main_shape\<close> below proves that every run of
  \<open>main\<close> has one of these shapes. The segments \<open>tr_\<dots>\<close> are the traces of the runs that
  got past a given point of the source.
\<close>

text \<open>The two traces of lines 68-83 that go on to line 85.\<close>

definition staged :: "event list \<Rightarrow> bool" where
  "staged stg \<longleftrightarrow>
     (\<exists>sb. stg = [Call (Stat TEMP_DIR) (OkStat sb)] \<and> S_ISDIR (st_mode sb)) \<or>
     stg = [Call (Stat TEMP_DIR) (Err ENOENT), Call (Mkdir TEMP_DIR 493) Ok]"

definition tr_staged :: "stat \<Rightarrow> event list \<Rightarrow> event list" where
  "tr_staged sb1 stg = Call (Stat ''/'') (OkStat sb1) # stg"

definition tr_opened :: "stat \<Rightarrow> event list \<Rightarrow> nat \<Rightarrow> event list" where
  "tr_opened sb1 stg fd = tr_staged sb1 stg @ [Call (Open ''.'' O_RDONLY) (OkFd fd)]"

definition tr_escaped ::
  "stat \<Rightarrow> event list \<Rightarrow> nat \<Rightarrow> sysret \<Rightarrow> sysret list \<Rightarrow> sysret \<Rightarrow> event list"
where
  "tr_escaped sb1 stg fd rc rs r7 =
     tr_opened sb1 stg fd @
     [Call (Chroot TEMP_DIR) Ok, Call (Fchdir fd) Ok, Call (Close fd) rc] @
     map (Call (Chdir ''..'')) rs @ [Call (Chroot ''.'') r7, Flush Stdout]"

definition tr_verified ::
  "stat \<Rightarrow> event list \<Rightarrow> nat \<Rightarrow> sysret \<Rightarrow> sysret list \<Rightarrow> sysret \<Rightarrow> stat \<Rightarrow> event list"
where
  "tr_verified sb1 stg fd rc rs r7 sb2 =
     tr_escaped sb1 stg fd rc rs r7 @
     [Call (Stat ''/'') (OkStat sb2), Write Stderr ''Broken out of the chroot.\<newline>'',
      Flush Stderr]"

definition tr_listed ::
  "stat \<Rightarrow> event list \<Rightarrow> nat \<Rightarrow> sysret \<Rightarrow> sysret list \<Rightarrow> sysret \<Rightarrow> stat \<Rightarrow> string list
   \<Rightarrow> event list"
where
  "tr_listed sb1 stg fd rc rs r7 sb2 dir =
     tr_verified sb1 stg fd rc rs r7 sb2 @
     [Call (Opendir ''/'') (OkDir dir), Write Stdout ''dir /:\<newline>''] @
     map (\<lambda>d_name. Write Stdout (d_name @ ''\<newline>'')) dir"

inductive run_shape :: "(errno \<Rightarrow> string) \<Rightarrow> string list \<Rightarrow> outcome \<Rightarrow> event list \<Rightarrow> bool"
  for strerror :: "errno \<Rightarrow> string" and argv :: "string list"
where
  stat1_failed:
    "run_shape strerror argv (Exit 1)
       [Call (Stat ''/'') (Err e),
        Write Stderr (''Failed to stat1 /: '' @ strerror e @ ''\<newline>'')]"
| staging_stat_failed:
    "e \<noteq> ENOENT \<Longrightarrow>
     run_shape strerror argv (Exit 1)
       [Call (Stat ''/'') (OkStat sb1), Call (Stat TEMP_DIR) (Err e),
        Write Stderr (''Failed to stat '' @ TEMP_DIR @ '' - '' @ strerror e @ ''\<newline>'')]"
| mkdir_failed:
    "run_shape strerror argv (Exit 1)
       [Call (Stat ''/'') (OkStat sb1), Call (Stat TEMP_DIR) (Err ENOENT),
        Call (Mkdir TEMP_DIR 493) (Err e),
        Write Stderr (''Failed to create '' @ TEMP_DIR @ '' - '' @ strerror e @ ''\<newline>'')]"
| not_a_directory:
    "\<not> S_ISDIR (st_mode sb) \<Longrightarrow>
     run_shape strerror argv (Exit 1)
       [Call (Stat ''/'') (OkStat sb1), Call (Stat TEMP_DIR) (OkStat sb),
        Write Stderr (''Error - '' @ TEMP_DIR @ '' is not a directory!\<newline>'')]"
| open_failed:
    "staged stg \<Longrightarrow>
     run_shape strerror argv (Exit 1)
       (tr_staged sb1 stg @
        [Call (Open ''.'' O_RDONLY) (Err e),
         Write Stderr (''Failed to open \".\" for reading - '' @ strerror e @ ''\<newline>'')])"
| chroot_failed_as_root:
    "staged stg \<Longrightarrow>
     run_shape strerror argv (Exit 1)
       (tr_opened sb1 stg fd @
        [Call (Chroot TEMP_DIR) (Err e),
         Write Stderr (''Failed to chroot to '' @ TEMP_DIR @ '' - '' @ strerror e @ ''\<newline>''),
         Call Geteuid (OkUid 0)])"
| chroot_failed_not_root:
    "staged stg \<Longrightarrow> uid \<noteq> 0 \<Longrightarrow>
     run_shape strerror argv (Exit 1)
       (tr_opened sb1 stg fd @
        [Call (Chroot TEMP_DIR) (Err e),
         Write Stderr (''Failed to chroot to '' @ TEMP_DIR @ '' - '' @ strerror e @ ''\<newline>''),
         Call Geteuid (OkUid uid),
         Write Stderr ''Not running as root. Breaking out of chroot works as root.\<newline>''])"
| fchdir_failed:
    "staged stg \<Longrightarrow>
     run_shape strerror argv (Exit 1)
       (tr_opened sb1 stg fd @
        [Call (Chroot TEMP_DIR) Ok, Call (Fchdir fd) (Err e),
         Write Stderr (''Failed to fchdir - '' @ strerror e @ ''\<newline>'')])"
| stat2_failed:
    "staged stg \<Longrightarrow> length rs = 1024 \<Longrightarrow>
     run_shape strerror argv (Exit 1)
       (tr_escaped sb1 stg fd rc rs r7 @
        [Call (Stat ''/'') (Err e),
         Write Stderr (''Failed to stat2 /: '' @ strerror e @ ''\<newline>'')])"
| escape_ineffective:
    "staged stg \<Longrightarrow> length rs = 1024 \<Longrightarrow> same_identity sb1 sb2 \<Longrightarrow>
     run_shape strerror argv (Exit 1)
       (tr_escaped sb1 stg fd rc rs r7 @
        [Call (Stat ''/'') (OkStat sb2),
         Write Stderr ''Breaking out of the chroot did not work.\<newline>''])"
| opendir_failed:
    "staged stg \<Longrightarrow> length rs = 1024 \<Longrightarrow> \<not> same_identity sb1 sb2 \<Longrightarrow>
     run_shape strerror argv (Exit 1)
       (tr_verified sb1 stg fd rc rs r7 sb2 @
        [Call (Opendir ''/'') (Err e),
         Write Stderr (''Failed to opendir /: '' @ strerror e @ ''\<newline>'')])"
| returned:
    "staged stg \<Longrightarrow> length rs = 1024 \<Longrightarrow> \<not> same_identity sb1 sb2 \<Longrightarrow>
     handoff_guard argv = Some False \<Longrightarrow>
     run_shape strerror argv (Return 0) (tr_listed sb1 stg fd rc rs r7 sb2 dir)"
| exec_failed:
    "staged stg \<Longrightarrow> length rs = 1024 \<Longrightarrow> \<not> same_identity sb1 sb2 \<Longrightarrow>
     handoff_guard argv = Some True \<Longrightarrow>
     run_shape strerror argv (Exit 1)
       (tr_listed sb1 stg fd rc rs r7 sb2 dir @
        [Write Stderr ''Running interactive shell outside chroot.\<newline>'',
         Call (Execl ''/bin/sh'' [''-i'']) (Err e),
         Write Stderr (''Failed to exec - '' @ strerror e @ ''\<newline>'')])"
| replaced:
    "staged stg \<Longrightarrow> length rs = 1024 \<Longrightarrow> \<not> same_identity sb1 sb2 \<Longrightarrow>
     handoff_guard argv = Some True \<Longrightarrow>
     run_shape strerror argv (Replaced ''/bin/sh'' [''-i''])
       (tr_listed sb1 stg fd rc rs r7 sb2 dir @
        [Write Stderr ''Running interactive shell outside chroot.\<newline>'',
         Call (Execl ''/bin/sh'' [''-i'']) Ok])"

subsection \<open>A reference kernel\<close>

text \<open>
  A small model of the system calls the program uses, over one process and one
  filesystem: enough of POSIX to run the program on concrete inputs. A file is named by
  its real path from the true root (a list of components); the process has a root
  directory (the confinement boundary, set by \<open>chroot\<close>), a working directory, an
  effective uid and a table of open descriptors. Path resolution starts at the process
  root for an absolute path and at the working directory otherwise; \<open>..\<close> stays where
  it is at the process root and at the true root (whose parent is itself), and moves to
  the parent anywhere else, also outside the process root.
\<close>

definition EPERM :: errno where "EPERM = 1"
definition EBADF :: errno where "EBADF = 9"
definition ENOMEM :: errno where "ENOMEM = 12"
definition EACCES :: errno where "EACCES = 13"
definition EEXIST :: errno where "EEXIST = 17"
definition ENOTDIR :: errno where "ENOTDIR = 20"
definition EMFILE :: errno where "EMFILE = 24"

record fsys =
  nodes :: "(string list \<times> stat) list"
  proc_root :: "string list"
  proc_cwd :: "string list"
  euid :: nat
  fds :: "(nat \<times> string list) list"

fun split_path :: "string \<Rightarrow> string list" where
  "split_path [] = [[]]"
| "split_path (c # cs) =
     (if c = CHR ''/'' then [] # split_path cs
      else (case split_path cs of [] \<Rightarrow> [[c]] | x # xs \<Rightarrow> (c # x) # xs))"

fun walk :: "string list \<Rightarrow> string list \<Rightarrow> string list \<Rightarrow> string list" where
  "walk r cur [] = cur"
| "walk r cur (c # cs) =
     walk r
       (if c = [] \<or> c = ''.'' then cur
        else if c = ''..'' then (if cur = r then cur else butlast cur)
        else cur @ [c])
       cs"

definition resolve :: "fsys \<Rightarrow> string \<Rightarrow> string list" where
  "resolve fs p =
     walk (proc_root fs) (if take 1 p = ''/'' then proc_root fs else proc_cwd fs) (split_path p)"

definition lookup :: "fsys \<Rightarrow> string \<Rightarrow> stat option" where
  "lookup fs p = map_of (nodes fs) (resolve fs p)"

definition fresh_ino :: "fsys \<Rightarrow> nat" where
  "fresh_ino fs = Suc (fold max (map (\<lambda>n. st_ino (snd n)) (nodes fs)) 0)"

definition fresh_fd :: "fsys \<Rightarrow> nat" where
  "fresh_fd fs = Suc (fold max (map fst (fds fs)) 2)"

definition ref_stat :: "string \<Rightarrow> fsys \<Rightarrow> (errno + stat) \<times> fsys" where
  "ref_stat p fs = (case lookup fs p of None \<Rightarrow> (Inl ENOENT, fs) | Some st \<Rightarrow> (Inr st, fs))"

definition ref_mkdir :: "string \<Rightarrow> nat \<Rightarrow> fsys \<Rightarrow> (errno + unit) \<times> fsys" where
  "ref_mkdir p mode fs =
     (case lookup fs p of
        Some st \<Rightarrow> (Inl EEXIST, fs)
      | None \<Rightarrow>
          (case map_of (nodes fs) (butlast (resolve fs p)) of
             None \<Rightarrow> (Inl ENOENT, fs)
           | Some parent \<Rightarrow>
               if \<not> S_ISDIR (st_mode parent) then (Inl ENOTDIR, fs)
               else (Inr (),
                     fs\<lparr>nodes := nodes fs @
                          [(resolve fs p,
                            \<lparr>st_dev = st_dev parent, st_ino = fresh_ino fs,
                             st_mode = 16384 OR (mode AND 4095)\<rparr>)]\<rparr>)))"

definition ref_open :: "string \<Rightarrow> nat \<Rightarrow> fsys \<Rightarrow> (errno + nat) \<times> fsys" where
  "ref_open p flags fs =
     (case lookup fs p of
        None \<Rightarrow> (Inl ENOENT, fs)
      | Some st \<Rightarrow> (Inr (fresh_fd fs), fs\<lparr>fds := (fresh_fd fs, resolve fs p) # fds fs\<rparr>))"

definition ref_chroot :: "string \<Rightarrow> fsys \<Rightarrow> (errno + unit) \<times> fsys" where
  "ref_chroot p fs =
     (if euid fs \<noteq> 0 then (Inl EPERM, fs)
      else (case lookup fs p of
              None \<Rightarrow> (Inl ENOENT, fs)
            | Some st \<Rightarrow>
                if \<not> S_ISDIR (st_mode st) then (Inl ENOTDIR, fs)
                else (Inr (), fs\<lparr>proc_root := resolve fs p\<rparr>)))"

definition ref_fchdir :: "nat \<Rightarrow> fsys \<Rightarrow> (errno + unit) \<times> fsys" where
  "ref_fchdir fd fs =
     (case map_of (fds fs) fd of
        None \<Rightarrow> (Inl EBADF, fs)
      | Some q \<Rightarrow> (Inr (), fs\<lparr>proc_cwd := q\<rparr>))"

definition ref_close :: "nat \<Rightarrow> fsys \<Rightarrow> (errno + unit) \<times> fsys" where
  "ref_close fd fs =
     (case map_of (fds fs) fd of
        None \<Rightarrow> (Inl EBADF, fs)
      | Some q \<Rightarrow> (Inr (), fs\<lparr>fds := filter (\<lambda>x. fst x \<noteq> fd) (fds fs)\<rparr>))"

definition ref_chdir :: "string \<Rightarrow> fsys \<Rightarrow> (errno + unit) \<times> fsys" where
  "ref_chdir p fs =
     (case lookup fs p of
        None \<Rightarrow> (Inl ENOENT, fs)
      | Some st \<Rightarrow>
          if \<not> S_ISDIR (st_mode st) then (Inl ENOTDIR, fs)
          else (Inr (), fs\<lparr>proc_cwd := resolve fs p\<rparr>))"

definition ref_opendir :: "string \<Rightarrow> fsys \<Rightarrow> (errno + string list) \<times> fsys" where
  "ref_opendir p fs =
     (case lookup fs p of
        None \<Rightarrow> (Inl ENOENT, fs)
      | Some st \<Rightarrow>
          if \<not> S_ISDIR (st_mode st) then (Inl ENOTDIR, fs)
          else (Inr (''.'' # ''..'' #
                     map (\<lambda>n. last (fst n))
                       (filter (\<lambda>n. fst n \<noteq> [] \<and> butlast (fst n) = resolve fs p) (nodes fs))),
                fs))"

definition ref_execl :: "string \<Rightarrow> string list \<Rightarrow> fsys \<Rightarrow> (errno + unit) \<times> fsys" where
  "ref_execl p args fs =
     (case lookup fs p of
        None \<Rightarrow> (Inl ENOENT, fs)
      | Some st \<Rightarrow> if S_ISDIR (st_mode st) then (Inl EACCES, fs) else (Inr (), fs))"

definition ref_strerror :: "errno \<Rightarrow> string" where
  "ref_strerror e =
     (if e = EPERM then ''Operation not permitted''
      else if e = ENOENT then ''No such file or directory''
      else if e = ENOMEM then ''Cannot allocate memory''
      else if e = EMFILE then ''Too many open files''
      else if e = ENOTDIR then ''Not a directory''
      else ''Unknown error'')"

definition ref_kernel :: "fsys kernel" where
  "ref_kernel =
     \<lparr>k_stat = ref_stat, k_mkdir = ref_mkdir, k_open = ref_open, k_chroot = ref_chroot,
      k_geteuid = euid, k_fchdir = ref_fchdir, k_close = ref_close, k_chdir = ref_chdir,
      k_opendir = ref_opendir, k_execl = ref_execl, k_strerror = ref_strerror\<rparr>"

text \<open>A filesystem with a jail at \<open>/jail\<close> (depth 1) that already holds a staging
  directory, and a root process confined to the jail.\<close>

definition a_dir :: "nat \<Rightarrow> stat" where
  "a_dir i = \<lparr>st_dev = 1, st_ino = i, st_mode = 16877\<rparr>"

definition a_file :: "nat \<Rightarrow> stat" where
  "a_file i = \<lparr>st_dev = 1, st_ino = i, st_mode = 33261\<rparr>"

definition jailed :: fsys where
  "jailed =
     \<lparr>nodes = [([], a_dir 2), ([''bin''], a_dir 3), ([''bin'', ''sh''], a_file 4),
               ([''jail''], a_dir 5), ([''waterbuffalo''], a_dir 6),
               ([''jail'', ''waterbuffalo''], a_dir 7)],
      proc_root = [''jail''], proc_cwd = [''jail''], euid = 0, fds = []\<rparr>"

text \<open>The same process once the program has nested the confinement and restored its
  working directory (after line 131): the boundary is the staging directory, the
  working directory is the jail, one level below the true root and outside the
  boundary.\<close>

definition nested :: fsys where
  "nested = jailed\<lparr>proc_root := [''jail'', ''waterbuffalo'']\<rparr>"

definition at_root :: fsys where
  "at_root = nested\<lparr>proc_cwd := []\<rparr>"

definition escaped :: fsys where
  "escaped = at_root\<lparr>proc_root := []\<rparr>"

text \<open>The trace of a run from \<open>jailed\<close> up to the end of the listing (line 178).\<close>

definition jailed_listed :: "event list" where
  "jailed_listed =
     tr_listed (a_dir 5) [Call (Stat TEMP_DIR) (OkStat (a_dir 7))] 3 Ok (replicate 1024 Ok) Ok
       (a_dir 2) [''.'', ''..'', ''bin'', ''jail'', ''waterbuffalo'']"

text \<open>Variations: a jail without the staging directory; a jail where the staging name
  is taken by a regular file; a process that is not root; a process that is not
  confined at all.\<close>

definition fresh_jail :: fsys where
  "fresh_jail =
     jailed\<lparr>nodes := [([], a_dir 2), ([''bin''], a_dir 3), ([''bin'', ''sh''], a_file 4),
                      ([''jail''], a_dir 5)]\<rparr>"

definition collision :: fsys where
  "collision = jailed\<lparr>nodes := nodes fresh_jail @ [([''jail'', ''waterbuffalo''], a_file 7)]\<rparr>"

definition unprivileged :: fsys where
  "unprivileged = jailed\<lparr>euid := 1000\<rparr>"

definition unconfined :: fsys where
  "unconfined = jailed\<lparr>proc_root := [], proc_cwd := []\<rparr>"

text \<open>Kernels that fail one call on purpose, as a loaded machine may: \<open>chroot(".")\<close>,
  every \<open>chdir\<close>, \<open>open\<close>, \<open>opendir\<close>.\<close>

definition no_rechroot :: "fsys kernel" where
  "no_rechroot =
     ref_kernel\<lparr>k_chroot := \<lambda>p fs. if p = ''.'' then (Inl ENOMEM, fs) else ref_chroot p fs\<rparr>"

definition no_chdir :: "fsys kernel" where
  "no_chdir = ref_kernel\<lparr>k_chdir := \<lambda>p fs. (Inl EACCES, fs)\<rparr>"

definition no_open :: "fsys kernel" where
  "no_open = ref_kernel\<lparr>k_open := \<lambda>p flags fs. (Inl EMFILE, fs)\<rparr>"

definition no_opendir :: "fsys kernel" where
  "no_opendir = ref_kernel\<lparr>k_opendir := \<lambda>p fs. (Inl EMFILE, fs)\<rparr>"

text \<open>A kernel that refuses \<open>chroot\<close> to every process, whatever its effective user id:
  what a root process without the capability \<open>CAP_SYS_CHROOT\<close> meets, for instance in a
  container. \<open>chroot\<close> fails with \<open>EPERM\<close> while \<open>geteuid\<close> still reports 0.\<close>

definition no_capability :: "fsys kernel" where
  "no_capability = ref_kernel\<lparr>k_chroot := \<lambda>p fs. (Inl EPERM, fs)\<rparr>"

section \<open>Every run has one of the shapes\<close>

subsection \<open>The two loops\<close>

lemma climb_eq:
  "climb K n x w =
     \<lparr>kst = (chdir_up K ^^ (n - x)) (kst w),
      events = events w @ map (Call (Chdir ''..'')) (climb_rets K (n - x) (kst w))\<rparr>"
proof (induction K n x w rule: climb.induct)
  case (1 K n x w)
  show ?case
  proof (cases "x < n")
    case True
    then have nx: "n - x = Suc (n - (x + 1))"
      by simp
    show ?thesis
      apply (subst climb.simps)
      apply (simp only: True if_True "1.IH"[OF True])
      apply (subst (1 2) nx)
      apply (simp add: sys_chdir_def do_call_def chdir_up_def chdir_ret_def funpow_swap1
          split: prod.splits)
      done
  next
    case False
    then show ?thesis
      by (subst climb.simps) simp
  qed
qed

lemma length_climb_rets [simp]: "length (climb_rets K n s) = n"
  by (induction n arbitrary: s) auto

lemma readdir_loop_eq:
  "readdir_loop dir w =
     w\<lparr>events := events w @ map (\<lambda>d_name. Write Stdout (d_name @ ''\<newline>'')) dir\<rparr>"
  by (induction dir arbitrary: w) (auto simp: printf_def fprintf_def emit_def)

subsection \<open>The guard of the handoff\<close>

lemma strcmp_eq_0_iff: "strcmp a b = 0 \<longleftrightarrow> a = b"
  by (induction a b rule: strcmp.induct) auto

lemma handoff_guard_cases:
  "handoff_guard argv =
     (case argv of
        [] \<Rightarrow> Some True
      | [a0] \<Rightarrow> Some True
      | a0 # a1 # rest \<Rightarrow> Some (a1 \<noteq> ''--no-shell''))"
proof (cases argv)
  case Nil
  then show ?thesis
    by (simp add: handoff_guard_def c_or_def c_not_ptr_def argv_at_def)
next
  case (Cons a0 rest)
  then show ?thesis
    by (cases rest)
       (simp_all add: handoff_guard_def c_or_def c_not_ptr_def strcmp_ne_def argv_at_def
          strcmp_eq_0_iff)
qed

lemma handoff_guard_defined: "handoff_guard argv \<noteq> None"
  by (auto simp: handoff_guard_cases split: list.splits)

lemma handoff_guard_False_iff:
  "handoff_guard argv = Some False \<longleftrightarrow> argv_at argv 1 = Some (Some ''--no-shell'')"
  by (auto simp: handoff_guard_cases argv_at_def split: list.splits)

subsection \<open>From the last block of \<open>main\<close> back to the first\<close>

lemmas io_defs = sys_stat_def sys_mkdir_def sys_open_def sys_chroot_def sys_geteuid_def
  sys_fchdir_def sys_close_def sys_chdir_def sys_opendir_def sys_execl_def do_call_def
  emit_def fprintf_def printf_def fflush_def exit_def

lemmas run_intros = run_shape.intros [simplified]

lemma handoff_shape:
  assumes "main_handoff K argv w = (out, w')"
    and "events w = tr_listed sb1 stg fd rc rs r7 sb2 dir"
    and "staged stg" "length rs = 1024" "\<not> same_identity sb1 sb2"
  shows "run_shape (k_strerror K) argv out (events w')"
proof (cases "handoff_guard argv")
  case None
  then show ?thesis
    using handoff_guard_defined by blast
next
  case (Some b)
  show ?thesis
  proof (cases b)
    case False
    with Some assms show ?thesis
      by (auto simp: main_handoff_def intro: run_intros)
  next
    case True
    obtain r s' where k: "k_execl K ''/bin/sh'' [''-i''] (kst w) = (r, s')"
      by (cases "k_execl K ''/bin/sh'' [''-i''] (kst w)")
    show ?thesis
    proof (cases r)
      case (Inl e)
      with True Some k assms show ?thesis
        by (auto simp: main_handoff_def io_defs intro: run_intros)
    next
      case (Inr u)
      with True Some k assms show ?thesis
        by (auto simp: main_handoff_def io_defs intro: run_intros)
    qed
  qed
qed

lemma listing_shape:
  assumes "main_listing K argv w = (out, w')"
    and "events w = tr_verified sb1 stg fd rc rs r7 sb2"
    and "staged stg" "length rs = 1024" "\<not> same_identity sb1 sb2"
  shows "run_shape (k_strerror K) argv out (events w')"
proof -
  obtain r s' where k: "k_opendir K ''/'' (kst w) = (r, s')"
    by (cases "k_opendir K ''/'' (kst w)")
  show ?thesis
  proof (cases r)
    case (Inl e)
    with k assms show ?thesis
      by (auto simp: main_listing_def io_defs intro: run_intros)
  next
    case (Inr dir)
    with k assms(1) have
      "main_handoff K argv
         \<lparr>kst = s',
          events = events w @
            [Call (Opendir ''/'') (OkDir dir), Write Stdout ''dir /:\<newline>''] @
            map (\<lambda>d_name. Write Stdout (d_name @ ''\<newline>'')) dir\<rparr> = (out, w')"
      by (simp add: main_listing_def io_defs readdir_loop_eq)
    from handoff_shape[OF this, of sb1 stg fd rc rs r7 sb2 dir] assms show ?thesis
      by (simp add: tr_listed_def)
  qed
qed

lemma verify_shape:
  assumes "main_verify K argv sb1 w = (out, w')"
    and "events w @ [Flush Stdout] = tr_escaped sb1 stg fd rc rs r7"
    and "staged stg" "length rs = 1024"
  shows "run_shape (k_strerror K) argv out (events w')"
proof -
  obtain r s' where k: "k_stat K ''/'' (kst w) = (r, s')"
    by (cases "k_stat K ''/'' (kst w)")
  show ?thesis
  proof (cases r)
    case (Inl e)
    with k assms show ?thesis
      by (auto simp: main_verify_def io_defs intro: run_intros)
  next
    case (Inr sb2)
    show ?thesis
    proof (cases "same_identity sb1 sb2")
      case True
      with Inr k assms(1,2) have "out = Exit 1" and
        "events w' = tr_escaped sb1 stg fd rc rs r7 @
           [Call (Stat ''/'') (OkStat sb2),
            Write Stderr ''Breaking out of the chroot did not work.\<newline>'']"
        by (auto simp: main_verify_def io_defs same_identity_def)
      with True assms(3,4) show ?thesis
        by (simp add: run_shape.escape_ineffective)
    next
      case False
      with Inr k assms(1) have
        "main_listing K argv
           \<lparr>kst = s',
            events = (events w @ [Flush Stdout]) @
              [Call (Stat ''/'') (OkStat sb2),
               Write Stderr ''Broken out of the chroot.\<newline>'', Flush Stderr]\<rparr> = (out, w')"
        by (auto simp add: main_verify_def io_defs same_identity_def)
      from listing_shape[OF this, of sb1 stg fd rc rs r7 sb2] assms False show ?thesis
        by (simp add: tr_verified_def)
    qed
  qed
qed

lemma escape_shape:
  assumes "main_escape K argv sb1 w = (out, w')"
    and "events w = tr_opened sb1 stg fd @
           [Call (Chroot TEMP_DIR) Ok, Call (Fchdir fd) Ok, Call (Close fd) rc]"
    and "staged stg"
  shows "run_shape (k_strerror K) argv out (events w')"
proof -
  let ?w1 = "climb K 1024 0 w"
  obtain r s' where k: "k_chroot K ''.'' (kst ?w1) = (r, s')"
    by (cases "k_chroot K ''.'' (kst ?w1)")
  define r7 where "r7 = (case r of Inl e \<Rightarrow> Err e | Inr (v::unit) \<Rightarrow> Ok)"
  let ?w2 = "\<lparr>kst = s', events = events ?w1 @ [Call (Chroot ''.'') r7]\<rparr>"
  from k assms(1) have "main_verify K argv sb1 ?w2 = (out, w')"
    by (simp add: main_escape_def io_defs r7_def)
  from verify_shape[OF this, of stg fd rc "climb_rets K 1024 (kst w)" r7] assms
  show ?thesis
    by (simp add: tr_escaped_def climb_eq)
qed

lemma nest_shape:
  assumes "main_nest (Some v) K argv sb1 fd w = (out, w')"
    and "events w = tr_opened sb1 stg fd"
    and "staged stg"
  shows "run_shape (k_strerror K) argv out (events w')"
proof -
  obtain r s' where k: "k_chroot K TEMP_DIR (kst w) = (r, s')"
    by (cases "k_chroot K TEMP_DIR (kst w)")
  show ?thesis
  proof (cases r)
    case (Inl e)
    show ?thesis
    proof (cases "k_geteuid K s' = 0")
      case True
      with Inl k assms(1,2)
        run_shape.chroot_failed_as_root[OF assms(3), of "k_strerror K" argv sb1 fd e]
      show ?thesis
        by (auto simp: main_nest_def io_defs)
    next
      case False
      with Inl k assms(1,2)
        run_shape.chroot_failed_not_root[OF assms(3), of "k_geteuid K s'" "k_strerror K" argv
          sb1 fd e]
      show ?thesis
        by (auto simp: main_nest_def io_defs)
    qed
  next
    case (Inr u)
    obtain r2 s2 where k2: "k_fchdir K fd s' = (r2, s2)"
      by (cases "k_fchdir K fd s'")
    show ?thesis
    proof (cases r2)
      case (Inl e)
      with Inr k k2 assms show ?thesis
        by (auto simp: main_nest_def io_defs ifdef_def intro: run_intros)
    next
      case Inr2: (Inr u2)
      obtain r3 s3 where k3: "k_close K fd s2 = (r3, s3)"
        by (cases "k_close K fd s2")
      define rc where "rc = (case r3 of Inl e \<Rightarrow> Err e | Inr (v::unit) \<Rightarrow> Ok)"
      from Inr Inr2 k k2 k3 assms(1) have
        "main_escape K argv sb1
           \<lparr>kst = s3,
            events = events w @
              [Call (Chroot TEMP_DIR) Ok, Call (Fchdir fd) Ok, Call (Close fd) rc]\<rparr> =
         (out, w')"
        by (simp add: main_nest_def io_defs ifdef_def rc_def)
      from escape_shape[OF this, of stg] assms show ?thesis
        by simp
    qed
  qed
qed

lemma open_shape:
  assumes "main_open (Some v) K argv sb1 w = (out, w')"
    and "events w = tr_staged sb1 stg"
    and "staged stg"
  shows "run_shape (k_strerror K) argv out (events w')"
proof -
  obtain r s' where k: "k_open K ''.'' O_RDONLY (kst w) = (r, s')"
    by (cases "k_open K ''.'' O_RDONLY (kst w)")
  show ?thesis
  proof (cases r)
    case (Inl e)
    with k assms show ?thesis
      by (auto simp: main_open_def io_defs ifdef_def intro: run_intros)
  next
    case (Inr fd)
    with k assms(1) have
      "main_nest (Some v) K argv sb1 fd
         \<lparr>kst = s', events = events w @ [Call (Open ''.'' O_RDONLY) (OkFd fd)]\<rparr> = (out, w')"
      by (simp add: main_open_def io_defs ifdef_def)
    from nest_shape[OF this, of stg] assms show ?thesis
      by (simp add: tr_opened_def)
  qed
qed

lemma staging_aborts:
  assumes "ensure_staging K w = (Inl out, w')"
    and "events w = [Call (Stat ''/'') (OkStat sb1)]"
  shows "run_shape (k_strerror K) argv out (events w')"
proof -
  obtain r s' where k: "k_stat K TEMP_DIR (kst w) = (r, s')"
    by (cases "k_stat K TEMP_DIR (kst w)")
  obtain r2 s2 where k2: "k_mkdir K TEMP_DIR 493 s' = (r2, s2)"
    by (cases "k_mkdir K TEMP_DIR 493 s'")
  from k k2 assms show ?thesis
    by (cases r; cases r2)
       (auto simp: ensure_staging_def io_defs split: if_splits intro: run_intros)
qed

lemma staging_continues:
  assumes "ensure_staging K w = (Inr u, w')"
  shows "\<exists>stg. staged stg \<and> events w' = events w @ stg"
proof -
  obtain r s' where k: "k_stat K TEMP_DIR (kst w) = (r, s')"
    by (cases "k_stat K TEMP_DIR (kst w)")
  obtain r2 s2 where k2: "k_mkdir K TEMP_DIR 493 s' = (r2, s2)"
    by (cases "k_mkdir K TEMP_DIR 493 s'")
  from k k2 assms show ?thesis
    by (cases r; cases r2)
       (auto simp: ensure_staging_def io_defs staged_def split: if_splits)
qed

lemma main_with_shape:
  assumes "main_with (Some v) K argv s = (out, w)"
  shows "run_shape (k_strerror K) argv out (events w)"
proof -
  obtain r s' where k: "k_stat K ''/'' s = (r, s')"
    by (cases "k_stat K ''/'' s")
  show ?thesis
  proof (cases r)
    case (Inl e)
    with k assms show ?thesis
      by (auto simp: main_with_def io_defs intro: run_intros)
  next
    case (Inr sb1)
    let ?w1 = "\<lparr>kst = s', events = [Call (Stat ''/'') (OkStat sb1)]\<rparr>"
    obtain r2 w2 where st: "ensure_staging K ?w1 = (r2, w2)"
      by (cases "ensure_staging K ?w1")
    show ?thesis
    proof (cases r2)
      case (Inl out')
      with Inr k st assms have "out' = out" "w2 = w"
        by (simp_all add: main_with_def io_defs)
      with Inl st staging_aborts[of K ?w1 out w sb1 argv] show ?thesis
        by simp
    next
      case Inr2: (Inr u)
      with st staging_continues[of K ?w1 u w2] obtain stg where
        stg: "staged stg" "events w2 = tr_staged sb1 stg"
        by (auto simp: tr_staged_def)
      from Inr Inr2 k st assms have "main_open (Some v) K argv sb1 w2 = (out, w)"
        by (simp add: main_with_def io_defs)
      from open_shape[OF this stg(2) stg(1)] show ?thesis .
    qed
  qed
qed

lemma main_with_defined: "main_with (Some v) K argv s = main K argv s"
proof -
  have ifd: "ifdef (Some v) = ifdef (Some 0)"
    by (simp add: ifdef_def)
  have nest: "main_nest (Some v) K argv sb fd w = main_nest (Some 0) K argv sb fd w"
    for sb fd w
    unfolding main_nest_def ifd by (rule refl)
  have opn: "main_open (Some v) K argv sb w = main_open (Some 0) K argv sb w" for sb w
    unfolding main_open_def ifd nest by (rule refl)
  show ?thesis
    unfolding main_def main_with_def NEED_FCHDIR_def opn by (rule refl)
qed

lemma main_shape:
  assumes "main K argv s = (out, w)"
  shows "run_shape (k_strerror K) argv out (events w)"
  using assms main_with_shape[of 0 K argv s out w]
  by (simp add: main_def NEED_FCHDIR_def)

subsection \<open>Reading traces\<close>

lemma calls_append [simp]: "calls (xs @ ys) = calls xs @ calls ys"
  by (induction xs rule: calls.induct) auto

lemma calls_map_Call [simp]: "calls (map (Call c) rs) = map (Pair c) rs"
  by (induction rs) auto

lemma calls_map_Write [simp]: "calls (map (\<lambda>d. Write f (g d)) ds) = []"
  by (induction ds) auto

lemma written_append [simp]: "written f (xs @ ys) = written f xs @ written f ys"
  by (induction xs rule: written.induct) auto

lemma written_map_Call [simp]: "written f (map (Call c) rs) = []"
  by (induction rs) auto

lemma written_map_Write [simp]:
  "written f (map (\<lambda>d. Write f' (g d)) ds) = (if f' = f then map g ds else [])"
  by (induction ds) auto

lemma staged_calls:
  "staged stg \<Longrightarrow> x \<in> set (calls stg) \<Longrightarrow>
     x = (Stat TEMP_DIR, Err ENOENT) \<or> x = (Mkdir TEMP_DIR 493, Ok) \<or>
     (\<exists>sb. x = (Stat TEMP_DIR, OkStat sb) \<and> S_ISDIR (st_mode sb))"
  by (auto simp: staged_def)

lemma staged_written [simp]: "staged stg \<Longrightarrow> written f stg = []"
  by (auto simp: staged_def)

lemma staged_dropWhile:
  "staged stg \<Longrightarrow> \<forall>r. Q (Stat TEMP_DIR, r) \<Longrightarrow> \<forall>r. Q (Mkdir TEMP_DIR 493, r) \<Longrightarrow>
     dropWhile Q (calls stg @ ys) = dropWhile Q ys"
  by (auto simp: staged_def)

lemma TEMP_DIR_not_dot [simp]:
  "TEMP_DIR \<noteq> ''.''" "TEMP_DIR \<noteq> ''/''" "''.'' \<noteq> TEMP_DIR" "''/'' \<noteq> TEMP_DIR"
  by (simp_all add: TEMP_DIR_def)

lemma calls_replicate [simp]: "calls (replicate n (Call c r)) = replicate n (c, r)"
  by (induction n) auto

lemma written_replicate [simp]: "written f (replicate n (Call c r)) = []"
  by (induction n) auto

lemma pending_from_replicate [simp]: "pending_from acc f (replicate n (Call c r)) = acc"
  by (induction n) auto

lemmas tr_defs = tr_staged_def tr_opened_def tr_escaped_def tr_verified_def tr_listed_def

lemma staged_filter:
  "staged stg \<Longrightarrow> \<forall>r. \<not> P (Stat TEMP_DIR, r) \<Longrightarrow> \<forall>r. \<not> P (Mkdir TEMP_DIR 493, r) \<Longrightarrow>
     filter P (calls stg) = []"
  by (auto simp: staged_def)

lemma filter_map_Pair:
  "filter (\<lambda>x. fst x = c') (map (Pair c) rs) = (if c = c' then map (Pair c) rs else [])"
  by (induction rs) auto


lemma in_map_Pair [simp]: "(c', r) \<in> Pair c ` S \<longleftrightarrow> c' = c \<and> r \<in> S"
  by auto

lemma pending_from_append:
  "pending_from acc f (xs @ ys) = pending_from (pending_from acc f xs) f ys"
  by (induction acc f xs rule: pending_from.induct) auto

lemma pending_from_map_Call [simp]: "pending_from acc f (map (Call c) rs) = acc"
  by (induction rs) auto

lemma pending_from_map_Write:
  "pending_from acc f (map (\<lambda>d. Write f' (g d)) ds) = (if f' = f then acc @ map g ds else acc)"
  by (induction ds arbitrary: acc) auto

lemma staged_pending [simp]: "staged stg \<Longrightarrow> pending_from acc f stg = acc"
  by (auto simp: staged_def)


subsection \<open>What is pending when the process image is replaced\<close>

text \<open>Every run that ends in \<open>execl\<close> has written to both streams since their last
  \<open>fflush\<close>: a listing to the output stream, one line to the error stream.\<close>

lemma exec_leaves_output_pending:
  assumes "main K argv s = (Replaced p a, w)"
  shows "pending Stdout (events w) \<noteq> [] \<and>
         pending Stderr (events w) = [''Running interactive shell outside chroot.\<newline>'']"
proof -
  define evs where "evs = events w"
  have "run_shape (k_strerror K) argv (Replaced p a) evs"
    unfolding evs_def using assms by (rule main_shape)
  then show ?thesis
    unfolding evs_def [symmetric]
    by (cases rule: run_shape.cases)
       (simp_all add: tr_defs pending_def pending_from_append pending_from_map_Write)
qed

section \<open>Runs on the reference kernel\<close>

lemmas ref_defs = ref_stat_def ref_mkdir_def ref_open_def ref_chroot_def
  ref_fchdir_def ref_close_def ref_chdir_def ref_opendir_def ref_execl_def
  lookup_def resolve_def fresh_fd_def fresh_ino_def S_ISDIR_def TEMP_DIR_def O_RDONLY_def

lemmas state_defs = jailed_def nested_def at_root_def escaped_def fresh_jail_def
  collision_def unprivileged_def unconfined_def a_dir_def a_file_def

lemma ref_kernel_fields [simp]:
  "k_stat ref_kernel = ref_stat" "k_mkdir ref_kernel = ref_mkdir"
  "k_open ref_kernel = ref_open" "k_chroot ref_kernel = ref_chroot"
  "k_geteuid ref_kernel = euid" "k_fchdir ref_kernel = ref_fchdir"
  "k_close ref_kernel = ref_close" "k_chdir ref_kernel = ref_chdir"
  "k_opendir ref_kernel = ref_opendir" "k_execl ref_kernel = ref_execl"
  "k_strerror ref_kernel = ref_strerror"
  by (simp_all add: ref_kernel_def)

lemma chdir_up_fixed: "chdir_up K s = s \<Longrightarrow> (chdir_up K ^^ n) s = s"
  by (induction n) auto

lemma climb_rets_fixed: "chdir_up K s = s \<Longrightarrow> climb_rets K n s = replicate n (chdir_ret K s)"
  by (induction n) auto

lemma climb_depth1:
  assumes "chdir_up K (chdir_up K s) = chdir_up K s"
  shows "0 < n \<Longrightarrow> (chdir_up K ^^ n) s = chdir_up K s"
    and "chdir_ret K s = r \<Longrightarrow> chdir_ret K (chdir_up K s) = r \<Longrightarrow>
         climb_rets K n s = replicate n r"
proof -
  show "0 < n \<Longrightarrow> (chdir_up K ^^ n) s = chdir_up K s"
    by (cases n)
       (simp_all add: funpow_swap1 chdir_up_fixed[OF assms])
  show "chdir_ret K s = r \<Longrightarrow> chdir_ret K (chdir_up K s) = r \<Longrightarrow>
        climb_rets K n s = replicate n r"
    by (cases n) (simp_all add: climb_rets_fixed[OF assms])
qed

subsection \<open>The confined root process\<close>

lemma jailed_stat_root: "ref_stat ''/'' jailed = (Inr (a_dir 5), jailed)"
  by (simp add: ref_defs state_defs)

lemma jailed_stat_staging: "ref_stat TEMP_DIR jailed = (Inr (a_dir 7), jailed)"
  by (simp add: ref_defs state_defs)

lemma S_ISDIR_dir [simp]: "S_ISDIR 16877"
  by (simp add: S_ISDIR_def)

lemma S_ISDIR_file [simp]: "\<not> S_ISDIR 33261"
  by (simp add: S_ISDIR_def)

lemma jailed_open: "ref_open ''.'' O_RDONLY jailed = (Inr 3, jailed\<lparr>fds := [(3, [''jail''])]\<rparr>)"
  by (simp add: ref_defs state_defs)

lemma jailed_chroot:
  "ref_chroot TEMP_DIR (jailed\<lparr>fds := [(3, [''jail''])]\<rparr>) =
     (Inr (), nested\<lparr>fds := [(3, [''jail''])]\<rparr>)"
  by (simp add: ref_defs state_defs)

lemma jailed_fchdir:
  "ref_fchdir 3 (nested\<lparr>fds := [(3, [''jail''])]\<rparr>) = (Inr (), nested\<lparr>fds := [(3, [''jail''])]\<rparr>)"
  by (simp add: ref_defs state_defs)

lemma jailed_close: "ref_close 3 (nested\<lparr>fds := [(3, [''jail''])]\<rparr>) = (Inr (), nested)"
  by (simp add: ref_defs state_defs)

lemma nested_chdir: "ref_chdir ''..'' nested = (Inr (), at_root)"
  by (simp add: ref_defs state_defs)

lemma at_root_chdir: "ref_chdir ''..'' at_root = (Inr (), at_root)"
  by (simp add: ref_defs state_defs)

lemma at_root_chroot: "ref_chroot ''.'' at_root = (Inr (), escaped)"
  by (simp add: ref_defs state_defs)

lemma escaped_stat_root: "ref_stat ''/'' escaped = (Inr (a_dir 2), escaped)"
  by (simp add: ref_defs state_defs)

lemma escaped_opendir:
  "ref_opendir ''/'' escaped = (Inr [''.'', ''..'', ''bin'', ''jail'', ''waterbuffalo''], escaped)"
  by (simp add: ref_defs state_defs)

lemma escaped_execl: "ref_execl ''/bin/sh'' [''-i''] escaped = (Inr (), escaped)"
  by (simp add: ref_defs state_defs)

lemma a_dir_sel [simp]: "st_dev (a_dir i) = 1" "st_ino (a_dir i) = i" "st_mode (a_dir i) = 16877"
  by (simp_all add: a_dir_def)

lemma identities_differ: "\<not> same_identity (a_dir 5) (a_dir 2)" "\<not> same_identity (a_dir 5) (a_dir 7)"
  by (simp_all add: same_identity_def a_dir_def)

lemmas jailed_steps = jailed_stat_root jailed_stat_staging jailed_open
  jailed_chroot jailed_fchdir jailed_close nested_chdir at_root_chdir at_root_chroot
  escaped_stat_root escaped_opendir escaped_execl

lemma nested_climb:
  "(chdir_up ref_kernel ^^ 1024) nested = at_root"
  "climb_rets ref_kernel 1024 nested = replicate 1024 Ok"
proof -
  have fixed: "chdir_up ref_kernel (chdir_up ref_kernel nested) = chdir_up ref_kernel nested"
    by (simp add: chdir_up_def nested_chdir at_root_chdir)
  show "(chdir_up ref_kernel ^^ 1024) nested = at_root"
    by (simp add: climb_depth1(1)[OF fixed]) (simp add: chdir_up_def nested_chdir)
  show "climb_rets ref_kernel 1024 nested = replicate 1024 Ok"
    by (rule climb_depth1(2)[OF fixed])
       (simp_all add: chdir_up_def chdir_ret_def nested_chdir at_root_chdir)
qed

lemmas main_defs = main_def main_with_def ensure_staging_def main_open_def main_nest_def
  main_escape_def main_verify_def main_listing_def NEED_FCHDIR_def ifdef_def

lemma jailed_reaches_handoff:
  "main ref_kernel argv jailed =
     main_handoff ref_kernel argv \<lparr>kst = escaped, events = jailed_listed\<rparr>"
  by (simp add: main_defs io_defs jailed_steps climb_eq nested_climb readdir_loop_eq
      jailed_listed_def tr_defs)

lemma handoff_shell:
  assumes "handoff_guard argv = Some True"
    and "k_execl K ''/bin/sh'' [''-i''] s = (Inr (), s')"
  shows "main_handoff K argv \<lparr>kst = s, events = evs\<rparr> =
     (Replaced ''/bin/sh'' [''-i''],
      \<lparr>kst = s',
       events = evs @ [Write Stderr ''Running interactive shell outside chroot.\<newline>'',
                       Call (Execl ''/bin/sh'' [''-i'']) Ok]\<rparr>)"
  using assms by (simp add: main_handoff_def io_defs)

lemma handoff_no_shell:
  assumes "handoff_guard argv = Some False"
  shows "main_handoff K argv w = (Return 0, w)"
  using assms by (simp add: main_handoff_def)

lemma run_jailed_shell:
  assumes "handoff_guard argv = Some True"
  shows "main ref_kernel argv jailed =
     (Replaced ''/bin/sh'' [''-i''],
      \<lparr>kst = escaped,
       events = jailed_listed @
         [Write Stderr ''Running interactive shell outside chroot.\<newline>'',
          Call (Execl ''/bin/sh'' [''-i'']) Ok]\<rparr>)"
  by (simp add: jailed_reaches_handoff handoff_shell[OF assms] escaped_execl)

lemma run_jailed_no_shell:
  assumes "handoff_guard argv = Some False"
  shows "main ref_kernel argv jailed = (Return 0, \<lparr>kst = escaped, events = jailed_listed\<rparr>)"
  by (simp add: jailed_reaches_handoff handoff_no_shell[OF assms])

lemma guard_examples:
  "handoff_guard [] = Some True"
  "handoff_guard [''chbreak''] = Some True"
  "handoff_guard [''chbreak'', ''-x''] = Some True"
  "handoff_guard [''chbreak'', ''--no-shell''] = Some False"
  by (simp_all add: handoff_guard_cases)

subsection \<open>Kernels with one failing call\<close>

lemma climb_same_chdir:
  assumes "k_chdir K = k_chdir K'"
  shows "(chdir_up K ^^ n) s = (chdir_up K' ^^ n) s"
    and "climb_rets K n s = climb_rets K' n s"
proof -
  have up: "chdir_up K = chdir_up K'"
    by (rule ext) (simp add: chdir_up_def assms)
  have ret: "chdir_ret K = chdir_ret K'"
    by (rule ext) (simp add: chdir_ret_def assms)
  show "(chdir_up K ^^ n) s = (chdir_up K' ^^ n) s"
    by (simp add: up)
  show "climb_rets K n s = climb_rets K' n s"
    by (induction n arbitrary: s) (simp_all add: up ret)
qed

lemma no_opendir_fields [simp]:
  "k_stat no_opendir = ref_stat" "k_mkdir no_opendir = ref_mkdir"
  "k_open no_opendir = ref_open" "k_chroot no_opendir = ref_chroot"
  "k_geteuid no_opendir = euid" "k_fchdir no_opendir = ref_fchdir"
  "k_close no_opendir = ref_close" "k_chdir no_opendir = ref_chdir"
  "k_opendir no_opendir = (\<lambda>p fs. (Inl EMFILE, fs))" "k_execl no_opendir = ref_execl"
  "k_strerror no_opendir = ref_strerror"
  by (simp_all add: no_opendir_def ref_kernel_def)

lemma strerror_examples [simp]:
  "ref_strerror EMFILE = ''Too many open files''"
  "ref_strerror EPERM = ''Operation not permitted''"
  "ref_strerror ENOMEM = ''Cannot allocate memory''"
  by (simp_all add: ref_strerror_def EMFILE_def EPERM_def ENOENT_def ENOMEM_def)

lemma run_no_opendir:
  "main no_opendir argv jailed =
     (Exit 1,
      \<lparr>kst = escaped,
       events =
         tr_verified (a_dir 5) [Call (Stat TEMP_DIR) (OkStat (a_dir 7))] 3 Ok
           (replicate 1024 Ok) Ok (a_dir 2) @
         [Call (Opendir ''/'') (Err EMFILE),
          Write Stderr ''Failed to opendir /: Too many open files\<newline>'']\<rparr>)"
  by (simp add: main_defs io_defs jailed_steps climb_eq
      climb_same_chdir[of no_opendir ref_kernel] nested_climb tr_defs)

lemma no_rechroot_fields [simp]:
  "k_stat no_rechroot = ref_stat" "k_mkdir no_rechroot = ref_mkdir"
  "k_open no_rechroot = ref_open"
  "k_chroot no_rechroot = (\<lambda>p fs. if p = ''.'' then (Inl ENOMEM, fs) else ref_chroot p fs)"
  "k_geteuid no_rechroot = euid" "k_fchdir no_rechroot = ref_fchdir"
  "k_close no_rechroot = ref_close" "k_chdir no_rechroot = ref_chdir"
  "k_opendir no_rechroot = ref_opendir" "k_execl no_rechroot = ref_execl"
  "k_strerror no_rechroot = ref_strerror"
  by (simp_all add: no_rechroot_def ref_kernel_def)




lemma no_chdir_fields [simp]:
  "k_stat no_chdir = ref_stat" "k_mkdir no_chdir = ref_mkdir"
  "k_open no_chdir = ref_open" "k_chroot no_chdir = ref_chroot"
  "k_geteuid no_chdir = euid" "k_fchdir no_chdir = ref_fchdir"
  "k_close no_chdir = ref_close" "k_chdir no_chdir = (\<lambda>p fs. (Inl EACCES, fs))"
  "k_opendir no_chdir = ref_opendir" "k_execl no_chdir = ref_execl"
  "k_strerror no_chdir = ref_strerror"
  by (simp_all add: no_chdir_def ref_kernel_def)




lemma no_open_fields [simp]:
  "k_stat no_open = ref_stat" "k_mkdir no_open = ref_mkdir"
  "k_open no_open = (\<lambda>p flags fs. (Inl EMFILE, fs))" "k_chroot no_open = ref_chroot"
  "k_geteuid no_open = euid" "k_fchdir no_open = ref_fchdir"
  "k_close no_open = ref_close" "k_chdir no_open = ref_chdir"
  "k_opendir no_open = ref_opendir" "k_execl no_open = ref_execl"
  "k_strerror no_open = ref_strerror"
  by (simp_all add: no_open_def ref_kernel_def)

lemma run_no_open:
  "main no_open argv jailed =
     (Exit 1,
      \<lparr>kst = jailed,
       events =
         tr_staged (a_dir 5) [Call (Stat TEMP_DIR) (OkStat (a_dir 7))] @
         [Call (Open ''.'' O_RDONLY) (Err EMFILE),
          Write Stderr ''Failed to open \".\" for reading - Too many open files\<newline>'']\<rparr>)"
  by (simp add: main_defs io_defs jailed_steps tr_defs)

lemma no_capability_fields [simp]:
  "k_stat no_capability = ref_stat" "k_mkdir no_capability = ref_mkdir"
  "k_open no_capability = ref_open" "k_chroot no_capability = (\<lambda>p fs. (Inl EPERM, fs))"
  "k_geteuid no_capability = euid" "k_fchdir no_capability = ref_fchdir"
  "k_close no_capability = ref_close" "k_chdir no_capability = ref_chdir"
  "k_opendir no_capability = ref_opendir" "k_execl no_capability = ref_execl"
  "k_strerror no_capability = ref_strerror"
  by (simp_all add: no_capability_def ref_kernel_def)

lemma jailed_opened_euid: "euid (jailed\<lparr>fds := [(3, [''jail''])]\<rparr>) = 0"
  by (simp add: state_defs)

lemma run_no_capability:
  "main no_capability argv jailed =
     (Exit 1,
      \<lparr>kst = jailed\<lparr>fds := [(3, [''jail''])]\<rparr>,
       events =
         tr_opened (a_dir 5) [Call (Stat TEMP_DIR) (OkStat (a_dir 7))] 3 @
         [Call (Chroot TEMP_DIR) (Err EPERM),
          Write Stderr ''Failed to chroot to waterbuffalo - Operation not permitted\<newline>'',
          Call Geteuid (OkUid 0)]\<rparr>)"
  by (simp add: main_defs io_defs jailed_steps jailed_opened_euid tr_defs) (simp add: TEMP_DIR_def)

subsection \<open>Other processes\<close>

lemma unprivileged_steps:
  "ref_stat ''/'' unprivileged = (Inr (a_dir 5), unprivileged)"
  "ref_stat TEMP_DIR unprivileged = (Inr (a_dir 7), unprivileged)"
  "ref_open ''.'' O_RDONLY unprivileged = (Inr 3, unprivileged\<lparr>fds := [(3, [''jail''])]\<rparr>)"
  "ref_chroot TEMP_DIR (unprivileged\<lparr>fds := [(3, [''jail''])]\<rparr>) =
     (Inl EPERM, unprivileged\<lparr>fds := [(3, [''jail''])]\<rparr>)"
  "euid (unprivileged\<lparr>fds := [(3, [''jail''])]\<rparr>) = 1000"
  by (simp_all add: ref_defs state_defs)

lemma run_unprivileged:
  "main ref_kernel argv unprivileged =
     (Exit 1,
      \<lparr>kst = unprivileged\<lparr>fds := [(3, [''jail''])]\<rparr>,
       events =
         tr_opened (a_dir 5) [Call (Stat TEMP_DIR) (OkStat (a_dir 7))] 3 @
         [Call (Chroot TEMP_DIR) (Err EPERM),
          Write Stderr ''Failed to chroot to waterbuffalo - Operation not permitted\<newline>'',
          Call Geteuid (OkUid 1000),
          Write Stderr ''Not running as root. Breaking out of chroot works as root.\<newline>'']\<rparr>)"
  by (simp add: main_defs io_defs unprivileged_steps tr_defs) (simp add: TEMP_DIR_def)

lemma unconfined_steps:
  "ref_stat ''/'' unconfined = (Inr (a_dir 2), unconfined)"
  "ref_stat TEMP_DIR unconfined = (Inr (a_dir 6), unconfined)"
  "ref_open ''.'' O_RDONLY unconfined = (Inr 3, unconfined\<lparr>fds := [(3, [])]\<rparr>)"
  "ref_chroot TEMP_DIR (unconfined\<lparr>fds := [(3, [])]\<rparr>) =
     (Inr (), unconfined\<lparr>fds := [(3, [])], proc_root := [''waterbuffalo'']\<rparr>)"
  "ref_fchdir 3 (unconfined\<lparr>fds := [(3, [])], proc_root := [''waterbuffalo'']\<rparr>) =
     (Inr (), unconfined\<lparr>fds := [(3, [])], proc_root := [''waterbuffalo'']\<rparr>)"
  "ref_close 3 (unconfined\<lparr>fds := [(3, [])], proc_root := [''waterbuffalo'']\<rparr>) =
     (Inr (), unconfined\<lparr>proc_root := [''waterbuffalo'']\<rparr>)"
  "ref_chdir ''..'' (unconfined\<lparr>proc_root := [''waterbuffalo'']\<rparr>) =
     (Inr (), unconfined\<lparr>proc_root := [''waterbuffalo'']\<rparr>)"
  "ref_chroot ''.'' (unconfined\<lparr>proc_root := [''waterbuffalo'']\<rparr>) = (Inr (), unconfined)"
  by (simp_all add: ref_defs state_defs)

lemma unconfined_climb:
  "(chdir_up ref_kernel ^^ n) (unconfined\<lparr>proc_root := [''waterbuffalo'']\<rparr>) =
     unconfined\<lparr>proc_root := [''waterbuffalo'']\<rparr>"
  "climb_rets ref_kernel n (unconfined\<lparr>proc_root := [''waterbuffalo'']\<rparr>) = replicate n Ok"
proof -
  let ?s = "unconfined\<lparr>proc_root := [''waterbuffalo'']\<rparr>"
  have fixed: "chdir_up ref_kernel ?s = ?s"
    by (simp add: chdir_up_def unconfined_steps)
  show "(chdir_up ref_kernel ^^ n) ?s = ?s"
    by (rule chdir_up_fixed[OF fixed])
  show "climb_rets ref_kernel n ?s = replicate n Ok"
    by (simp add: climb_rets_fixed[OF fixed] chdir_ret_def unconfined_steps)
qed

lemma run_unconfined:
  "main ref_kernel argv unconfined =
     (Exit 1,
      \<lparr>kst = unconfined,
       events =
         tr_escaped (a_dir 2) [Call (Stat TEMP_DIR) (OkStat (a_dir 6))] 3 Ok
           (replicate 1024 Ok) Ok @
         [Call (Stat ''/'') (OkStat (a_dir 2)),
          Write Stderr ''Breaking out of the chroot did not work.\<newline>'']\<rparr>)"
  by (simp add: main_defs io_defs unconfined_steps climb_eq unconfined_climb tr_defs)

lemma collision_steps:
  "ref_stat ''/'' collision = (Inr (a_dir 5), collision)"
  "ref_stat TEMP_DIR collision = (Inr (a_file 7), collision)"
  "\<not> S_ISDIR (st_mode (a_file 7))"
  by (simp_all add: ref_defs state_defs)

lemma run_collision:
  "main ref_kernel argv collision =
     (Exit 1,
      \<lparr>kst = collision,
       events =
         [Call (Stat ''/'') (OkStat (a_dir 5)), Call (Stat TEMP_DIR) (OkStat (a_file 7)),
          Write Stderr ''Error - waterbuffalo is not a directory!\<newline>'']\<rparr>)"
  by (simp add: main_defs io_defs collision_steps) (simp add: TEMP_DIR_def)

lemma fresh_jail_steps:
  "ref_stat TEMP_DIR fresh_jail = (Inl ENOENT, fresh_jail)"
  "ref_mkdir TEMP_DIR 493 fresh_jail =
     (Inr (), fresh_jail\<lparr>nodes := nodes fresh_jail @ [([''jail'', ''waterbuffalo''], a_dir 6)]\<rparr>)"
  by (simp_all add: ref_defs state_defs)

subsection \<open>Two facts about the reference kernel\<close>

lemma ref_stat_pure: "snd (ref_stat p t) = t"
  by (simp add: ref_stat_def split: option.splits)

lemma ref_mkdir_then_stat:
  assumes "ref_mkdir TEMP_DIR 493 t = (Inr (), t')"
  shows "\<exists>sb. fst (ref_stat TEMP_DIR t') = Inr sb \<and> S_ISDIR (st_mode sb)"
proof -
  let ?q = "resolve t TEMP_DIR"
  let ?parent = "the (map_of (nodes t) (butlast ?q))"
  let ?new = "\<lparr>st_dev = st_dev ?parent, st_ino = fresh_ino t, st_mode = 16877\<rparr>"
  from assms have absent: "map_of (nodes t) ?q = None"
    and t': "t' = t\<lparr>nodes := nodes t @ [(?q, ?new)]\<rparr>"
    by (auto simp: ref_mkdir_def lookup_def split: option.splits if_splits)
  have same: "resolve t' TEMP_DIR = ?q"
    by (simp add: t' resolve_def)
  have "map_of (nodes t') ?q = Some ?new"
    by (simp add: t' map_add_def absent)
  then show ?thesis
    by (simp add: ref_stat_def lookup_def same)
qed

section \<open>The claims\<close>




text \<open>
  C9. If the escape has been verified and opening the real root directory for the
  listing then fails, the program ends with status 1: the run wrote the success notice
  "Broken out of the chroot." and its last diagnostic reports the failed \<open>opendir\<close>.
\<close>

theorem opendir_failure_fatal:
  assumes run: "main K argv s = (out, w)"
    and fails: "(Opendir ''/'', Err e) \<in> set (calls (events w))"
  shows "out = Exit 1 \<and>
         ''Broken out of the chroot.\<newline>'' \<in> set (written Stderr (events w)) \<and>
         last (written Stderr (events w)) =
           ''Failed to opendir /: '' @ k_strerror K e @ ''\<newline>''"
proof -
  define evs where "evs = events w"
  have "run_shape (k_strerror K) argv out evs"
    unfolding evs_def using run by (rule main_shape)
  then show ?thesis
    using fails unfolding evs_def [symmetric]
    by (induction rule: run_shape.induct) (auto simp: tr_defs dest: staged_calls)
qed

theorem opendir_failure_fatal_witness:
  "fst (main no_opendir [''chbreak''] jailed) = Exit 1 \<and>
   ''Broken out of the chroot.\<newline>''
     \<in> set (written Stderr (events (snd (main no_opendir [''chbreak''] jailed)))) \<and>
   last (written Stderr (events (snd (main no_opendir [''chbreak''] jailed)))) =
     ''Failed to opendir /: Too many open files\<newline>''"
proof -
  let ?run = "main no_opendir [''chbreak''] jailed"
  have run: "?run = (fst ?run, snd ?run)"
    by simp
  have fails: "(Opendir ''/'', Err EMFILE) \<in> set (calls (events (snd ?run)))"
    by (simp add: run_no_opendir tr_defs)
  from opendir_failure_fatal[OF run fails] show ?thesis
    by simp
qed

text \<open>
  C10. The test of line 179 is defined for every argument vector: it never reads
  \<open>argv\<close> out of bounds and never hands a null pointer to \<open>strcmp\<close>. With an empty
  vector, reading \<open>argv[1]\<close> would be out of bounds, and with only \<open>argv[0]\<close>,
  \<open>strcmp(argv[1], \<dots>)\<close> would dereference a null pointer; in both cases the operand
  is not evaluated and the test is true. No run of the program ends in undefined
  behaviour, and with such a vector a run that has listed the root directory goes on
  to \<open>execl\<close> of the shell.
\<close>

theorem handoff_guard_short_circuits:
  "handoff_guard argv \<noteq> None \<and>
   (argv = [] \<longrightarrow> c_not_ptr (argv_at argv 1) = None \<and> handoff_guard argv = Some True) \<and>
   (length argv = 1 \<longrightarrow>
      strcmp_ne (argv_at argv 1) ''--no-shell'' = None \<and> handoff_guard argv = Some True) \<and>
   fst (main K argv s) \<noteq> Undefined_Behaviour \<and>
   (length argv \<le> 1 \<and> (Opendir ''/'', OkDir dir) \<in> set (calls (events (snd (main K argv s))))
      \<longrightarrow> (\<exists>r. last (calls (events (snd (main K argv s)))) = (Execl ''/bin/sh'' [''-i''], r)))"
proof -
  obtain out w where run: "main K argv s = (out, w)"
    by (cases "main K argv s")
  define evs where "evs = events w"
  have shape: "run_shape (k_strerror K) argv out evs"
    unfolding evs_def using run by (rule main_shape)
  have short: "length argv \<le> 1 \<Longrightarrow> handoff_guard argv = Some True"
    by (cases argv) (auto simp: handoff_guard_cases split: list.splits)
  have "out \<noteq> Undefined_Behaviour"
    using shape by (induction rule: run_shape.induct) simp_all
  moreover have "length argv \<le> 1 \<Longrightarrow> (Opendir ''/'', OkDir dir) \<in> set (calls evs) \<Longrightarrow>
      \<exists>r. last (calls evs) = (Execl ''/bin/sh'' [''-i''], r)"
    using shape short
    by (induction rule: run_shape.induct) (auto simp: tr_defs dest: staged_calls)
  moreover have "argv = [] \<Longrightarrow> c_not_ptr (argv_at argv 1) = None"
    by (simp add: c_not_ptr_def argv_at_def)
  moreover have "length argv = 1 \<Longrightarrow> strcmp_ne (argv_at argv 1) ''--no-shell'' = None"
    by (simp add: strcmp_ne_def argv_at_def)
  ultimately show ?thesis
    using handoff_guard_defined[of argv] short run by (auto simp: evs_def)
qed

theorem handoff_guard_short_circuits_witness:
  "c_not_ptr (argv_at [] 1) = None \<and> handoff_guard [] = Some True \<and>
   strcmp_ne (argv_at [''chbreak''] 1) ''--no-shell'' = None \<and>
   handoff_guard [''chbreak''] = Some True \<and>
   fst (main ref_kernel [] jailed) \<noteq> Undefined_Behaviour \<and>
   (\<exists>r. last (calls (events (snd (main ref_kernel [] jailed)))) =
      (Execl ''/bin/sh'' [''-i''], r))"
proof -
  have listed: "(Opendir ''/'', OkDir [''.'', ''..'', ''bin'', ''jail'', ''waterbuffalo''])
      \<in> set (calls (events (snd (main ref_kernel [] jailed))))"
    by (simp add: run_jailed_shell guard_examples jailed_listed_def tr_defs)
  from handoff_guard_short_circuits[of "[]" ref_kernel jailed
      "[''.'', ''..'', ''bin'', ''jail'', ''waterbuffalo'']"]
    handoff_guard_short_circuits[of "[''chbreak'']" ref_kernel jailed "[]"] listed
  show ?thesis
    by simp
qed

text \<open>
  C7, as stated, fails. The program does not learn why the nested \<open>chroot\<close> failed: it
  writes the hint only when \<open>geteuid()\<close> is not 0 (line 106). A process with effective
  user id 0 that lacks the privilege to call \<open>chroot\<close> is refused with \<open>EPERM\<close>, and
  the program exits with 1 after the fatal diagnostic alone, without the hint.
\<close>

theorem hint_missing_counterexample:
  "(Chroot TEMP_DIR, Err EPERM)
     \<in> set (calls (events (snd (main no_capability [''chbreak''] jailed)))) \<and>
   (Geteuid, OkUid 0) \<in> set (calls (events (snd (main no_capability [''chbreak''] jailed)))) \<and>
   fst (main no_capability [''chbreak''] jailed) = Exit 1 \<and>
   written Stderr (events (snd (main no_capability [''chbreak''] jailed))) =
     [''Failed to chroot to waterbuffalo - Operation not permitted\<newline>''] \<and>
   ''Not running as root. Breaking out of chroot works as root.\<newline>''
     \<notin> set (written Stderr (events (snd (main no_capability [''chbreak''] jailed))))"
  by (simp add: run_no_capability tr_defs)

text \<open>
  C7, amended. If the nested \<open>chroot\<close> (line 103) fails, for whatever reason, the
  program ends with status 1; after the failed call it makes exactly one system call,
  \<open>geteuid\<close>: no \<open>fchdir\<close>, no \<open>chdir\<close>, no second \<open>chroot\<close>, no second \<open>stat\<close>; and
  its whole output on the error stream is the fatal diagnostic with the system's error
  text, followed by the hint that breaking out works as root exactly when \<open>geteuid\<close>
  reported a user id other than 0.
\<close>

theorem nested_chroot_failure:
  assumes run: "main K argv s = (out, w)"
    and denied: "(Chroot TEMP_DIR, Err e) \<in> set (calls (events w))"
  shows "out = Exit 1 \<and>
         (\<exists>uid.
            after (\<lambda>x. fst x = Chroot TEMP_DIR) (calls (events w)) = [(Geteuid, OkUid uid)] \<and>
            written Stderr (events w) =
              (''Failed to chroot to '' @ TEMP_DIR @ '' - '' @ k_strerror K e @ ''\<newline>'') #
              (if uid = 0 then []
               else [''Not running as root. Breaking out of chroot works as root.\<newline>'']))"
proof -
  define evs where "evs = events w"
  have "run_shape (k_strerror K) argv out evs"
    unfolding evs_def using run by (rule main_shape)
  then show ?thesis
    using denied unfolding evs_def [symmetric]
  proof (induction rule: run_shape.induct)
    case (chroot_failed_as_root stg sb1 fd e')
    then show ?case
      by (auto simp: tr_defs after_def staged_dropWhile dest: staged_calls)
  next
    case (chroot_failed_not_root stg uid sb1 fd e')
    then show ?case
      by (auto simp: tr_defs after_def staged_dropWhile dest: staged_calls)
  qed (auto simp: tr_defs dest: staged_calls)
qed

theorem nested_chroot_failure_witness:
  "fst (main ref_kernel [''chbreak''] unprivileged) = Exit 1 \<and>
   after (\<lambda>x. fst x = Chroot TEMP_DIR)
     (calls (events (snd (main ref_kernel [''chbreak''] unprivileged)))) =
     [(Geteuid, OkUid 1000)] \<and>
   written Stderr (events (snd (main ref_kernel [''chbreak''] unprivileged))) =
     [''Failed to chroot to waterbuffalo - Operation not permitted\<newline>'',
      ''Not running as root. Breaking out of chroot works as root.\<newline>''] \<and>
   fst (main no_capability [''chbreak''] jailed) = Exit 1 \<and>
   after (\<lambda>x. fst x = Chroot TEMP_DIR)
     (calls (events (snd (main no_capability [''chbreak''] jailed)))) =
     [(Geteuid, OkUid 0)] \<and>
   written Stderr (events (snd (main no_capability [''chbreak''] jailed))) =
     [''Failed to chroot to waterbuffalo - Operation not permitted\<newline>'']"
proof -
  let ?user = "main ref_kernel [''chbreak''] unprivileged"
  let ?root = "main no_capability [''chbreak''] jailed"
  have runs: "?user = (fst ?user, snd ?user)" "?root = (fst ?root, snd ?root)"
    by simp_all
  have denied:
    "(Chroot TEMP_DIR, Err EPERM) \<in> set (calls (events (snd ?user)))"
    "(Chroot TEMP_DIR, Err EPERM) \<in> set (calls (events (snd ?root)))"
    by (simp_all add: run_unprivileged run_no_capability tr_defs)
  have rest:
    "after (\<lambda>x. fst x = Chroot TEMP_DIR) (calls (events (snd ?user))) = [(Geteuid, OkUid 1000)]"
    "after (\<lambda>x. fst x = Chroot TEMP_DIR) (calls (events (snd ?root))) = [(Geteuid, OkUid 0)]"
    by (simp_all add: run_unprivileged run_no_capability tr_defs after_def)
  from nested_chroot_failure[OF runs(1) denied(1)] nested_chroot_failure[OF runs(2) denied(2)]
    rest
  show ?thesis
    by (auto simp: TEMP_DIR_def)
qed

text \<open>
  C6. The shell handoff is suppressed exactly when \<open>argv[1]\<close> is the string
  \<open>--no-shell\<close>. With the flag, no run calls \<open>execl\<close> or is replaced by a shell, and a
  run that got as far as listing the root directory returns 0. Without it (another
  value, no \<open>argv[1]\<close>, or an empty vector), no run returns from \<open>main\<close>, and a run that
  listed the root directory ends with \<open>execl("/bin/sh", "-i", NULL)\<close>: when that
  succeeds the process image is replaced, when it fails the program exits with 1.
\<close>

theorem no_shell_flag:
  assumes run: "main K argv s = (out, w)"
  shows "(argv_at argv 1 = Some (Some ''--no-shell'') \<longrightarrow>
            (\<forall>x \<in> set (calls (events w)). \<forall>p a. fst x \<noteq> Execl p a) \<and>
            (\<forall>p a. out \<noteq> Replaced p a) \<and>
            ((Opendir ''/'', OkDir dir) \<in> set (calls (events w)) \<longrightarrow> out = Return 0)) \<and>
         (argv_at argv 1 \<noteq> Some (Some ''--no-shell'') \<longrightarrow>
            (\<forall>n. out \<noteq> Return n) \<and>
            ((Opendir ''/'', OkDir dir) \<in> set (calls (events w)) \<longrightarrow>
               out = Replaced ''/bin/sh'' [''-i''] \<and>
                 last (calls (events w)) = (Execl ''/bin/sh'' [''-i''], Ok) \<or>
               (\<exists>e. out = Exit 1 \<and> last (calls (events w)) = (Execl ''/bin/sh'' [''-i''], Err e))))"
proof -
  define evs where "evs = events w"
  have "run_shape (k_strerror K) argv out evs"
    unfolding evs_def using run by (rule main_shape)
  then show ?thesis
    unfolding evs_def [symmetric] handoff_guard_False_iff [symmetric]
    by (induction rule: run_shape.induct) (auto simp: tr_defs dest: staged_calls)
qed

theorem no_shell_flag_witness:
  "fst (main ref_kernel [''chbreak'', ''--no-shell''] jailed) = Return 0 \<and>
   (Execl ''/bin/sh'' [''-i''], Ok)
     \<notin> set (calls (events (snd (main ref_kernel [''chbreak'', ''--no-shell''] jailed)))) \<and>
   fst (main ref_kernel [''chbreak'', ''-x''] jailed) = Replaced ''/bin/sh'' [''-i''] \<and>
   fst (main ref_kernel [''chbreak''] jailed) = Replaced ''/bin/sh'' [''-i'']"
proof -
  let ?dir = "[''.'', ''..'', ''bin'', ''jail'', ''waterbuffalo'']"
  let ?flag = "main ref_kernel [''chbreak'', ''--no-shell''] jailed"
  let ?other = "main ref_kernel [''chbreak'', ''-x''] jailed"
  let ?none = "main ref_kernel [''chbreak''] jailed"
  have listed:
    "(Opendir ''/'', OkDir ?dir) \<in> set (calls (events (snd ?flag)))"
    "(Opendir ''/'', OkDir ?dir) \<in> set (calls (events (snd ?other)))"
    "(Opendir ''/'', OkDir ?dir) \<in> set (calls (events (snd ?none)))"
    by (simp_all add: run_jailed_shell run_jailed_no_shell guard_examples jailed_listed_def
        tr_defs)
  have not_exit: "fst ?other \<noteq> Exit 1" "fst ?none \<noteq> Exit 1"
    by (simp_all add: run_jailed_shell guard_examples)
  have args:
    "argv_at [''chbreak'', ''--no-shell''] 1 = Some (Some ''--no-shell'')"
    "argv_at [''chbreak'', ''-x''] 1 \<noteq> Some (Some ''--no-shell'')"
    "argv_at [''chbreak''] 1 \<noteq> Some (Some ''--no-shell'')"
    by (simp_all add: argv_at_def)
  note with_flag =
    no_shell_flag[of ref_kernel "[''chbreak'', ''--no-shell'']" jailed "fst ?flag" "snd ?flag" ?dir]
  note with_other =
    no_shell_flag[of ref_kernel "[''chbreak'', ''-x'']" jailed "fst ?other" "snd ?other" ?dir]
  note without =
    no_shell_flag[of ref_kernel "[''chbreak'']" jailed "fst ?none" "snd ?none" ?dir]
  from with_flag args(1) listed(1) have returned: "fst ?flag = Return 0"
    by simp
  from with_flag args(1)
  have "\<forall>x \<in> set (calls (events (snd ?flag))). \<forall>p a. fst x \<noteq> Execl p a"
    by simp
  then have no_exec: "(Execl ''/bin/sh'' [''-i''], Ok) \<notin> set (calls (events (snd ?flag)))"
    by (metis fst_conv)
  from with_other args(2) listed(2) not_exit(1)
  have other: "fst ?other = Replaced ''/bin/sh'' [''-i'']"
    by simp
  from without args(3) listed(3) not_exit(2)
  have none: "fst ?none = Replaced ''/bin/sh'' [''-i'']"
    by simp
  from returned no_exec other none show ?thesis
    by simp
qed

text \<open>
  C8. \<open>NEED_FCHDIR\<close> is tested with \<open>#ifdef\<close>, so the program compiled with any value
  of the macro, 0 included, is the program with the working-directory branch. In every
  run of it: \<open>"."\<close> is opened read-only unless the program has already exited with 1 at
  the first status query or in the preparation of the staging directory; if
  \<open>open(".", O_RDONLY)\<close> fails the program exits with 1 and that call was
  its last; the nested \<open>chroot\<close> is called only right after a successful \<open>open\<close> of
  \<open>"."\<close>; when the nested \<open>chroot\<close> succeeds the next call is \<open>fchdir\<close> on the descriptor
  that \<open>open\<close> returned; and when that \<open>fchdir\<close> succeeds the next call is \<open>close\<close> of
  the same descriptor, which no later call uses. Below, \<open>cs\<close> is the sequence of
  system calls of the run from the \<open>open\<close> on.
\<close>

theorem fchdir_branch_compiled_in:
  assumes run: "main_with (Some v) K argv s = (out, w)"
    and cs: "cs = dropWhile (\<lambda>x. fst x \<noteq> Open ''.'' O_RDONLY) (calls (events w))"
  shows "main K argv s = main_with (Some v) K argv s \<and>
         (cs = [] \<longrightarrow>
            out = Exit 1 \<and>
            (\<forall>x \<in> set (calls (events w)).
               fst x = Stat ''/'' \<or> fst x = Stat TEMP_DIR \<or> fst x = Mkdir TEMP_DIR 493)) \<and>
         ((Open ''.'' O_RDONLY, Err e) \<in> set (calls (events w)) \<longrightarrow>
            out = Exit 1 \<and> cs = [(Open ''.'' O_RDONLY, Err e)]) \<and>
         ((Chroot TEMP_DIR, r) \<in> set (calls (events w)) \<longrightarrow>
            (\<exists>dir_fd. take 2 cs = [(Open ''.'' O_RDONLY, OkFd dir_fd), (Chroot TEMP_DIR, r)])) \<and>
         ((Chroot TEMP_DIR, Ok) \<in> set (calls (events w)) \<longrightarrow>
            (\<exists>dir_fd r'. take 3 cs =
               [(Open ''.'' O_RDONLY, OkFd dir_fd), (Chroot TEMP_DIR, Ok), (Fchdir dir_fd, r')])) \<and>
         ((Fchdir fd, Ok) \<in> set (calls (events w)) \<longrightarrow>
            (\<exists>rc. take 4 cs =
               [(Open ''.'' O_RDONLY, OkFd fd), (Chroot TEMP_DIR, Ok), (Fchdir fd, Ok),
                (Close fd, rc)]) \<and>
            (\<forall>x \<in> set (drop 4 cs). fst x \<noteq> Fchdir fd \<and> fst x \<noteq> Close fd))"
proof -
  have same: "main K argv s = main_with (Some v) K argv s"
    by (rule main_with_defined [symmetric])
  define evs where "evs = events w"
  have "run_shape (k_strerror K) argv out evs"
    unfolding evs_def using run by (rule main_with_shape)
  then have
    "(dropWhile (\<lambda>x. fst x \<noteq> Open ''.'' O_RDONLY) (calls evs) = [] \<longrightarrow>
        out = Exit 1 \<and>
        (\<forall>x \<in> set (calls evs).
           fst x = Stat ''/'' \<or> fst x = Stat TEMP_DIR \<or> fst x = Mkdir TEMP_DIR 493)) \<and>
     ((Open ''.'' O_RDONLY, Err e) \<in> set (calls evs) \<longrightarrow>
        out = Exit 1 \<and>
        dropWhile (\<lambda>x. fst x \<noteq> Open ''.'' O_RDONLY) (calls evs) = [(Open ''.'' O_RDONLY, Err e)]) \<and>
     ((Chroot TEMP_DIR, r) \<in> set (calls evs) \<longrightarrow>
        (\<exists>dir_fd. take 2 (dropWhile (\<lambda>x. fst x \<noteq> Open ''.'' O_RDONLY) (calls evs)) =
           [(Open ''.'' O_RDONLY, OkFd dir_fd), (Chroot TEMP_DIR, r)])) \<and>
     ((Chroot TEMP_DIR, Ok) \<in> set (calls evs) \<longrightarrow>
        (\<exists>dir_fd r'. take 3 (dropWhile (\<lambda>x. fst x \<noteq> Open ''.'' O_RDONLY) (calls evs)) =
           [(Open ''.'' O_RDONLY, OkFd dir_fd), (Chroot TEMP_DIR, Ok), (Fchdir dir_fd, r')])) \<and>
     ((Fchdir fd, Ok) \<in> set (calls evs) \<longrightarrow>
        (\<exists>rc. take 4 (dropWhile (\<lambda>x. fst x \<noteq> Open ''.'' O_RDONLY) (calls evs)) =
           [(Open ''.'' O_RDONLY, OkFd fd), (Chroot TEMP_DIR, Ok), (Fchdir fd, Ok),
            (Close fd, rc)]) \<and>
        (\<forall>x \<in> set (drop 4 (dropWhile (\<lambda>x. fst x \<noteq> Open ''.'' O_RDONLY) (calls evs))).
           fst x \<noteq> Fchdir fd \<and> fst x \<noteq> Close fd))"
    by (induction rule: run_shape.induct)
       (auto simp: tr_defs staged_dropWhile dest: staged_calls)
  with same show ?thesis
    by (simp add: cs evs_def)
qed

theorem fchdir_branch_compiled_in_witness:
  "main ref_kernel [''chbreak''] jailed = main_with (Some 1) ref_kernel [''chbreak''] jailed \<and>
   (\<exists>rc. take 4 (dropWhile (\<lambda>x. fst x \<noteq> Open ''.'' O_RDONLY)
                   (calls (events (snd (main_with (Some 1) ref_kernel [''chbreak''] jailed))))) =
      [(Open ''.'' O_RDONLY, OkFd 3), (Chroot TEMP_DIR, Ok), (Fchdir 3, Ok), (Close 3, rc)]) \<and>
   fst (main_with (Some 1) no_open [''chbreak''] jailed) = Exit 1 \<and>
   dropWhile (\<lambda>x. fst x \<noteq> Open ''.'' O_RDONLY)
     (calls (events (snd (main_with (Some 1) no_open [''chbreak''] jailed)))) =
     [(Open ''.'' O_RDONLY, Err EMFILE)]"
proof -
  let ?ok = "main_with (Some 1) ref_kernel [''chbreak''] jailed"
  let ?bad = "main_with (Some 1) no_open [''chbreak''] jailed"
  have runs: "?ok = (fst ?ok, snd ?ok)" "?bad = (fst ?bad, snd ?bad)"
    by simp_all
  have restored: "(Fchdir 3, Ok) \<in> set (calls (events (snd ?ok)))"
    by (simp add: main_with_defined run_jailed_shell guard_examples jailed_listed_def tr_defs)
  have failed: "(Open ''.'' O_RDONLY, Err EMFILE) \<in> set (calls (events (snd ?bad)))"
    by (simp add: main_with_defined run_no_open tr_defs)
  from fchdir_branch_compiled_in[OF runs(1) refl, of EMFILE Ok 3]
    fchdir_branch_compiled_in[OF runs(2) refl, of EMFILE Ok 3] restored failed
  show ?thesis
    by simp
qed

text \<open>
  C2. Take a run in which every system call succeeded. The program reports success (it
  returns 0 or hands over to the shell) if and only if it took the identity of \<open>"/"\<close>
  a second time and that identity differs from the first in device or inode number.
  When the two identities are equal the program exits with 1 and its only output on
  the error stream is "Breaking out of the chroot did not work."; when they differ it
  writes "Broken out of the chroot." and ends on the success path. The diagnostic of
  the equal case is not written in any run that a failed system call ended.
  (A run without a failed call can also stop at a staging name that is not a
  directory, before the second identity is taken; it does not report success.)
\<close>

theorem identity_check_decides:
  assumes run: "main K argv s = (out, w)"
    and ok: "\<forall>x \<in> set (calls (events w)). \<not> failed (snd x)"
  shows "((out = Return 0 \<or> out = Replaced ''/bin/sh'' [''-i'']) \<longleftrightarrow>
            (\<exists>sb1 sb2. root_stats (calls (events w)) = [OkStat sb1, OkStat sb2] \<and>
               \<not> same_identity sb1 sb2)) \<and>
         (root_stats (calls (events w)) = [OkStat sb1, OkStat sb2] \<and> same_identity sb1 sb2 \<longrightarrow>
            out = Exit 1 \<and>
            written Stderr (events w) = [''Breaking out of the chroot did not work.\<newline>'']) \<and>
         (root_stats (calls (events w)) = [OkStat sb1, OkStat sb2] \<and> \<not> same_identity sb1 sb2 \<longrightarrow>
            (out = Return 0 \<or> out = Replaced ''/bin/sh'' [''-i'']) \<and>
            ''Broken out of the chroot.\<newline>'' \<in> set (written Stderr (events w))) \<and>
         ((c, Err e) \<in> set (calls (events (snd (main K' argv' s')))) \<and> fatal_on_failure c e \<longrightarrow>
            ''Breaking out of the chroot did not work.\<newline>''
              \<notin> set (written Stderr (events (snd (main K' argv' s')))))"
proof -
  define evs where "evs = events w"
  have "run_shape (k_strerror K) argv out evs"
    unfolding evs_def using run by (rule main_shape)
  then have decides:
    "\<forall>x \<in> set (calls evs). \<not> failed (snd x) \<Longrightarrow>
     ((out = Return 0 \<or> out = Replaced ''/bin/sh'' [''-i'']) \<longleftrightarrow>
        (\<exists>sb1 sb2. root_stats (calls evs) = [OkStat sb1, OkStat sb2] \<and>
           \<not> same_identity sb1 sb2)) \<and>
     (root_stats (calls evs) = [OkStat sb1, OkStat sb2] \<and> same_identity sb1 sb2 \<longrightarrow>
        out = Exit 1 \<and>
        written Stderr evs = [''Breaking out of the chroot did not work.\<newline>'']) \<and>
     (root_stats (calls evs) = [OkStat sb1, OkStat sb2] \<and> \<not> same_identity sb1 sb2 \<longrightarrow>
        (out = Return 0 \<or> out = Replaced ''/bin/sh'' [''-i'']) \<and>
        ''Broken out of the chroot.\<newline>'' \<in> set (written Stderr evs))"
    by (induction rule: run_shape.induct)
       (auto simp: tr_defs root_stats_def staged_filter filter_map_Pair)
  obtain out' w' where run': "main K' argv' s' = (out', w')"
    by (cases "main K' argv' s'")
  define evs' where "evs' = events w'"
  have "run_shape (k_strerror K') argv' out' evs'"
    unfolding evs'_def using run' by (rule main_shape)
  then have "(c, Err e) \<in> set (calls evs') \<Longrightarrow> fatal_on_failure c e \<Longrightarrow>
      ''Breaking out of the chroot did not work.\<newline>'' \<notin> set (written Stderr evs')"
    by (induction rule: run_shape.induct) (auto simp: tr_defs dest: staged_calls)
  with decides ok run' show ?thesis
    by (simp add: evs_def evs'_def)
qed

theorem identity_check_decides_witness:
  "(fst (main ref_kernel [''chbreak''] jailed) = Return 0 \<or>
    fst (main ref_kernel [''chbreak''] jailed) = Replaced ''/bin/sh'' [''-i'']) \<and>
   ''Broken out of the chroot.\<newline>''
     \<in> set (written Stderr (events (snd (main ref_kernel [''chbreak''] jailed)))) \<and>
   fst (main ref_kernel [''chbreak''] unconfined) = Exit 1 \<and>
   written Stderr (events (snd (main ref_kernel [''chbreak''] unconfined))) =
     [''Breaking out of the chroot did not work.\<newline>''] \<and>
   ''Breaking out of the chroot did not work.\<newline>''
     \<notin> set (written Stderr (events (snd (main ref_kernel [''chbreak''] unprivileged))))"
proof -
  let ?out = "main ref_kernel [''chbreak''] jailed"
  let ?in = "main ref_kernel [''chbreak''] unconfined"
  let ?no = "main ref_kernel [''chbreak''] unprivileged"
  have runs: "?out = (fst ?out, snd ?out)" "?in = (fst ?in, snd ?in)"
    by simp_all
  have ok:
    "\<forall>x \<in> set (calls (events (snd ?out))). \<not> failed (snd x)"
    "\<forall>x \<in> set (calls (events (snd ?in))). \<not> failed (snd x)"
    by (simp_all add: run_jailed_shell run_unconfined guard_examples jailed_listed_def tr_defs)
  have stats:
    "root_stats (calls (events (snd ?out))) = [OkStat (a_dir 5), OkStat (a_dir 2)]"
    "root_stats (calls (events (snd ?in))) = [OkStat (a_dir 2), OkStat (a_dir 2)]"
    by (simp_all add: run_jailed_shell run_unconfined guard_examples jailed_listed_def tr_defs
        root_stats_def filter_map_Pair)
  have ids: "\<not> same_identity (a_dir 5) (a_dir 2)" "same_identity (a_dir 2) (a_dir 2)"
    by (simp_all add: same_identity_def)
  have denied: "(Chroot TEMP_DIR, Err EPERM) \<in> set (calls (events (snd ?no)))"
    "fatal_on_failure (Chroot TEMP_DIR) EPERM"
    by (simp_all add: run_unprivileged tr_defs)
  from identity_check_decides[OF runs(1) ok(1), of "a_dir 5" "a_dir 2" "Chroot TEMP_DIR" EPERM
      ref_kernel "[''chbreak'']" unprivileged]
    identity_check_decides[OF runs(2) ok(2), of "a_dir 2" "a_dir 2" "Chroot TEMP_DIR" EPERM
      ref_kernel "[''chbreak'']" unprivileged]
    stats ids denied
  show ?thesis
    by simp
qed

text \<open>
  C5. Let \<open>d\<close> be a number of parent changes after which one more \<open>chdir("..")\<close>
  leaves the kernel state as it is: the working directory has reached the true root,
  where \<open>..\<close> is the root itself. Then the loop of lines 146-148, run with any bound
  \<open>n \<ge> d\<close>, ends in the state reached after \<open>d\<close> changes; two bounds that are both at
  least \<open>d\<close> end in the same state, hence in the same working directory.
\<close>

theorem climb_past_root:
  assumes at_root: "chdir_up K ((chdir_up K ^^ d) s) = (chdir_up K ^^ d) s"
    and n: "d \<le> n" and m: "d \<le> m"
  shows "kst (climb K n 0 \<lparr>kst = s, events = evs\<rparr>) = (chdir_up K ^^ d) s \<and>
         kst (climb K n 0 \<lparr>kst = s, events = evs\<rparr>) = kst (climb K m 0 \<lparr>kst = s, events = evs\<rparr>)"
proof -
  have reach: "(chdir_up K ^^ k) s = (chdir_up K ^^ d) s" if "d \<le> k" for k
  proof -
    from that obtain j where k: "k = j + d"
      by (metis le_add_diff_inverse2)
    show ?thesis
      unfolding k funpow_add o_apply by (rule chdir_up_fixed[OF at_root])
  qed
  show ?thesis
    by (simp add: climb_eq reach[OF n] reach[OF m])
qed

theorem climb_past_root_witness:
  "proc_cwd (kst (climb ref_kernel 1024 0 \<lparr>kst = nested, events = []\<rparr>)) = [] \<and>
   kst (climb ref_kernel 1024 0 \<lparr>kst = nested, events = []\<rparr>) =
     kst (climb ref_kernel 2 0 \<lparr>kst = nested, events = []\<rparr>)"
proof -
  have up: "chdir_up ref_kernel nested = at_root" "chdir_up ref_kernel at_root = at_root"
    by (simp_all add: chdir_up_def nested_chdir at_root_chdir)
  have at_root: "chdir_up ref_kernel ((chdir_up ref_kernel ^^ Suc 0) nested) =
      (chdir_up ref_kernel ^^ Suc 0) nested"
    by (simp add: up)
  have cwd: "proc_cwd at_root = []"
    by (simp add: at_root_def)
  have le: "Suc 0 \<le> 1024" "Suc 0 \<le> 2"
    by simp_all
  note both = climb_past_root[OF at_root le, of "[]"]
  from both[THEN conjunct1]
  have reached: "kst (climb ref_kernel 1024 0 \<lparr>kst = nested, events = []\<rparr>) = at_root"
    by (simp add: up)
  note same = both[THEN conjunct2]
  from reached cwd have "proc_cwd (kst (climb ref_kernel 1024 0 \<lparr>kst = nested, events = []\<rparr>)) = []"
    by simp
  with same show ?thesis
    by blast
qed

text \<open>
  C3. The preparation of the staging directory (lines 68-83), for any kernel and any
  state. If the status query reports \<open>ENOENT\<close> the program calls
  \<open>mkdir("waterbuffalo", 0755)\<close>, and goes on when that succeeds. If the query reports a
  file that is not a directory, the step ends the program with status 1, and in the
  whole run no \<open>chroot\<close> is called. If the query reports a directory, the step goes
  on after that one query, having made no other call. On a kernel whose status query
  leaves the state as it is and on which a directory just made by \<open>mkdir\<close> is reported
  as a directory, a second preparation after a successful first one succeeds with the
  status query alone and leaves the kernel state as the first one left it.
\<close>

theorem staging_preparation:
  "(k_stat K TEMP_DIR s = (Inl ENOENT, s1) \<and> k_mkdir K TEMP_DIR 493 s1 = (Inr (), s2) \<longrightarrow>
      ensure_staging K \<lparr>kst = s, events = evs\<rparr> =
        (Inr (),
         \<lparr>kst = s2,
          events = evs @ [Call (Stat TEMP_DIR) (Err ENOENT), Call (Mkdir TEMP_DIR 493) Ok]\<rparr>)) \<and>
   (k_stat K TEMP_DIR s = (Inr sb, s1) \<and> \<not> S_ISDIR (st_mode sb) \<longrightarrow>
      fst (ensure_staging K \<lparr>kst = s, events = evs\<rparr>) = Inl (Exit 1)) \<and>
   (main K argv s0 = (out, w) \<and> (Stat TEMP_DIR, OkStat sb) \<in> set (calls (events w)) \<and>
    \<not> S_ISDIR (st_mode sb) \<longrightarrow>
      out = Exit 1 \<and> (\<forall>x \<in> set (calls (events w)). \<forall>p. fst x \<noteq> Chroot p)) \<and>
   (k_stat K TEMP_DIR s = (Inr sb, s1) \<and> S_ISDIR (st_mode sb) \<longrightarrow>
      ensure_staging K \<lparr>kst = s, events = evs\<rparr> =
        (Inr (), \<lparr>kst = s1, events = evs @ [Call (Stat TEMP_DIR) (OkStat sb)]\<rparr>)) \<and>
   ((\<forall>t. snd (k_stat K TEMP_DIR t) = t) \<and>
    (\<forall>t t'. k_mkdir K TEMP_DIR 493 t = (Inr (), t') \<longrightarrow>
       (\<exists>sb'. fst (k_stat K TEMP_DIR t') = Inr sb' \<and> S_ISDIR (st_mode sb'))) \<and>
    ensure_staging K w0 = (Inr (), w1) \<longrightarrow>
      (\<exists>sb'. S_ISDIR (st_mode sb') \<and>
         ensure_staging K w1 =
           (Inr (), w1\<lparr>events := events w1 @ [Call (Stat TEMP_DIR) (OkStat sb')]\<rparr>)))"
proof (intro conjI impI)
  assume "k_stat K TEMP_DIR s = (Inl ENOENT, s1) \<and> k_mkdir K TEMP_DIR 493 s1 = (Inr (), s2)"
  then show "ensure_staging K \<lparr>kst = s, events = evs\<rparr> =
      (Inr (),
       \<lparr>kst = s2,
        events = evs @ [Call (Stat TEMP_DIR) (Err ENOENT), Call (Mkdir TEMP_DIR 493) Ok]\<rparr>)"
    by (simp add: ensure_staging_def io_defs)
next
  assume "k_stat K TEMP_DIR s = (Inr sb, s1) \<and> \<not> S_ISDIR (st_mode sb)"
  then show "fst (ensure_staging K \<lparr>kst = s, events = evs\<rparr>) = Inl (Exit 1)"
    by (simp add: ensure_staging_def io_defs)
next
  assume a: "main K argv s0 = (out, w) \<and> (Stat TEMP_DIR, OkStat sb) \<in> set (calls (events w)) \<and>
    \<not> S_ISDIR (st_mode sb)"
  then have run: "main K argv s0 = (out, w)"
    by simp
  define evs' where "evs' = events w"
  have "run_shape (k_strerror K) argv out evs'"
    unfolding evs'_def using run by (rule main_shape)
  then have "(Stat TEMP_DIR, OkStat sb) \<in> set (calls evs') \<Longrightarrow> \<not> S_ISDIR (st_mode sb) \<Longrightarrow>
      out = Exit 1 \<and> (\<forall>x \<in> set (calls evs'). \<forall>p. fst x \<noteq> Chroot p)"
    by (induction rule: run_shape.induct) (auto simp: tr_defs dest: staged_calls)
  with a show "out = Exit 1" and "\<forall>x \<in> set (calls (events w)). \<forall>p. fst x \<noteq> Chroot p"
    by (simp_all add: evs'_def)
next
  assume "k_stat K TEMP_DIR s = (Inr sb, s1) \<and> S_ISDIR (st_mode sb)"
  then show "ensure_staging K \<lparr>kst = s, events = evs\<rparr> =
      (Inr (), \<lparr>kst = s1, events = evs @ [Call (Stat TEMP_DIR) (OkStat sb)]\<rparr>)"
    by (simp add: ensure_staging_def io_defs)
next
  assume a: "(\<forall>t. snd (k_stat K TEMP_DIR t) = t) \<and>
    (\<forall>t t'. k_mkdir K TEMP_DIR 493 t = (Inr (), t') \<longrightarrow>
       (\<exists>sb'. fst (k_stat K TEMP_DIR t') = Inr sb' \<and> S_ISDIR (st_mode sb'))) \<and>
    ensure_staging K w0 = (Inr (), w1)"
  then have pure: "snd (k_stat K TEMP_DIR t) = t" for t
    by simp
  from a have made: "k_mkdir K TEMP_DIR 493 t = (Inr (), t') \<Longrightarrow>
      \<exists>sb'. fst (k_stat K TEMP_DIR t') = Inr sb' \<and> S_ISDIR (st_mode sb')" for t t'
    by blast
  from a have first: "ensure_staging K w0 = (Inr (), w1)"
    by simp
  obtain r where k: "k_stat K TEMP_DIR (kst w0) = (r, kst w0)"
    using pure[of "kst w0"] by (cases "k_stat K TEMP_DIR (kst w0)") simp
  obtain r2 t' where k2: "k_mkdir K TEMP_DIR 493 (kst w0) = (r2, t')"
    by (cases "k_mkdir K TEMP_DIR 493 (kst w0)")
  have "\<exists>sb'. fst (k_stat K TEMP_DIR (kst w1)) = Inr sb' \<and> S_ISDIR (st_mode sb')"
  proof (cases r)
    case (Inl e)
    with first k k2 have "r2 = Inr ()" and "kst w1 = t'"
      by (cases r2; auto simp: ensure_staging_def io_defs split: if_splits)+
    with k2 made[of "kst w0" t'] show ?thesis
      by simp
  next
    case (Inr sb')
    with first k have "S_ISDIR (st_mode sb')" and "kst w1 = kst w0"
      by (auto simp: ensure_staging_def io_defs split: if_splits)
    with Inr k show ?thesis
      by simp
  qed
  then obtain sb' where again: "fst (k_stat K TEMP_DIR (kst w1)) = Inr sb'"
    and dir: "S_ISDIR (st_mode sb')"
    by blast
  from again pure[of "kst w1"] have "k_stat K TEMP_DIR (kst w1) = (Inr sb', kst w1)"
    by (cases "k_stat K TEMP_DIR (kst w1)") simp
  with dir have "ensure_staging K w1 =
      (Inr (), w1\<lparr>events := events w1 @ [Call (Stat TEMP_DIR) (OkStat sb')]\<rparr>)"
    by (simp add: ensure_staging_def io_defs)
  with dir show "\<exists>sb'. S_ISDIR (st_mode sb') \<and>
      ensure_staging K w1 =
        (Inr (), w1\<lparr>events := events w1 @ [Call (Stat TEMP_DIR) (OkStat sb')]\<rparr>)"
    by blast
qed

theorem staging_preparation_witness:
  "ensure_staging ref_kernel \<lparr>kst = fresh_jail, events = []\<rparr> =
     (Inr (),
      \<lparr>kst = fresh_jail\<lparr>nodes := nodes fresh_jail @ [([''jail'', ''waterbuffalo''], a_dir 6)]\<rparr>,
       events = [Call (Stat TEMP_DIR) (Err ENOENT), Call (Mkdir TEMP_DIR 493) Ok]\<rparr>) \<and>
   fst (ensure_staging ref_kernel \<lparr>kst = collision, events = []\<rparr>) = Inl (Exit 1) \<and>
   fst (main ref_kernel [''chbreak''] collision) = Exit 1 \<and>
   (Chroot TEMP_DIR, Ok) \<notin> set (calls (events (snd (main ref_kernel [''chbreak''] collision)))) \<and>
   ensure_staging ref_kernel \<lparr>kst = jailed, events = []\<rparr> =
     (Inr (), \<lparr>kst = jailed, events = [Call (Stat TEMP_DIR) (OkStat (a_dir 7))]\<rparr>) \<and>
   (\<exists>sb'. S_ISDIR (st_mode sb') \<and>
      ensure_staging ref_kernel
        \<lparr>kst = fresh_jail\<lparr>nodes := nodes fresh_jail @ [([''jail'', ''waterbuffalo''], a_dir 6)]\<rparr>,
         events = [Call (Stat TEMP_DIR) (Err ENOENT), Call (Mkdir TEMP_DIR 493) Ok]\<rparr> =
        (Inr (),
         \<lparr>kst = fresh_jail\<lparr>nodes := nodes fresh_jail @ [([''jail'', ''waterbuffalo''], a_dir 6)]\<rparr>,
          events = [Call (Stat TEMP_DIR) (Err ENOENT), Call (Mkdir TEMP_DIR 493) Ok,
                    Call (Stat TEMP_DIR) (OkStat sb')]\<rparr>))"
proof -
  let ?created = "fresh_jail\<lparr>nodes := nodes fresh_jail @ [([''jail'', ''waterbuffalo''], a_dir 6)]\<rparr>"
  let ?w0 = "\<lparr>kst = fresh_jail, events = []\<rparr>"
  let ?w1 = "\<lparr>kst = ?created,
             events = [Call (Stat TEMP_DIR) (Err ENOENT), Call (Mkdir TEMP_DIR 493) Ok]\<rparr>"
  let ?run = "main ref_kernel [''chbreak''] collision"
  note absent = staging_preparation[where K = ref_kernel and s = fresh_jail and ?s1.0 = fresh_jail
      and ?s2.0 = ?created and evs = "[]" and ?w0.0 = ?w0 and ?w1.0 = ?w1]
  note clash = staging_preparation[where K = ref_kernel and s = collision and ?s1.0 = collision
      and sb = "a_file 7" and evs = "[]" and argv = "[''chbreak'']" and ?s0.0 = collision
      and out = "fst ?run" and w = "snd ?run"]
  note present = staging_preparation[where K = ref_kernel and s = jailed and ?s1.0 = jailed
      and sb = "a_dir 7" and evs = "[]"]
  have first: "ensure_staging ref_kernel ?w0 = (Inr (), ?w1)"
    using absent[THEN conjunct1] by (simp add: fresh_jail_steps)
  have kernel:
    "\<forall>t. snd (k_stat ref_kernel TEMP_DIR t) = t"
    "\<forall>t t'. k_mkdir ref_kernel TEMP_DIR 493 t = (Inr (), t') \<longrightarrow>
       (\<exists>sb'. fst (k_stat ref_kernel TEMP_DIR t') = Inr sb' \<and> S_ISDIR (st_mode sb'))"
    by (simp_all add: ref_stat_pure ref_mkdir_then_stat)
  have second: "\<exists>sb'. S_ISDIR (st_mode sb') \<and>
      ensure_staging ref_kernel ?w1 =
        (Inr (), ?w1\<lparr>events := events ?w1 @ [Call (Stat TEMP_DIR) (OkStat sb')]\<rparr>)"
    using absent[THEN conjunct2, THEN conjunct2, THEN conjunct2, THEN conjunct2] kernel first
    by blast
  have seen: "(Stat TEMP_DIR, OkStat (a_file 7)) \<in> set (calls (events (snd ?run)))"
    by (simp add: run_collision)
  have aborted: "fst (ensure_staging ref_kernel \<lparr>kst = collision, events = []\<rparr>) = Inl (Exit 1)"
    using clash[THEN conjunct2, THEN conjunct1] by (simp add: collision_steps)
  have no_chroot: "fst ?run = Exit 1 \<and> (\<forall>x \<in> set (calls (events (snd ?run))). \<forall>p. fst x \<noteq> Chroot p)"
    using clash[THEN conjunct2, THEN conjunct2, THEN conjunct1] seen
    by (simp add: collision_steps)
  have kept: "ensure_staging ref_kernel \<lparr>kst = jailed, events = []\<rparr> =
      (Inr (), \<lparr>kst = jailed, events = [Call (Stat TEMP_DIR) (OkStat (a_dir 7))]\<rparr>)"
    using present[THEN conjunct2, THEN conjunct2, THEN conjunct2, THEN conjunct1]
    by (simp add: jailed_stat_staging)
  from no_chroot have exit: "fst ?run = Exit 1"
    and "\<forall>x \<in> set (calls (events (snd ?run))). \<forall>p. fst x \<noteq> Chroot p"
    by simp_all
  then have "(Chroot TEMP_DIR, Ok) \<notin> set (calls (events (snd ?run)))"
    by (metis fst_conv)
  with exit first second aborted kept show ?thesis
    by simp
qed

text \<open>
  C4, on the code. Take the confined root process of the reference kernel, started
  without arguments. The run ends in \<open>execl\<close> of the shell, and at that moment the
  whole listing of the root directory has been written to the output stream after the
  only \<open>fflush(stdout)\<close> of the program (line 151, before anything is printed), and
  the line "Running interactive shell outside chroot." has been written to the error
  stream after the only \<open>fflush(stderr)\<close> (line 161). The claim asks for both streams
  to be flushed after their last write and before the \<open>execl\<close>.
\<close>

theorem listing_pending_at_exec:
  "fst (main ref_kernel [''chbreak''] jailed) = Replaced ''/bin/sh'' [''-i''] \<and>
   pending Stdout (events (snd (main ref_kernel [''chbreak''] jailed))) =
     [''dir /:\<newline>'', ''.\<newline>'', ''..\<newline>'', ''bin\<newline>'', ''jail\<newline>'', ''waterbuffalo\<newline>''] \<and>
   pending Stderr (events (snd (main ref_kernel [''chbreak''] jailed))) =
     [''Running interactive shell outside chroot.\<newline>'']"
  by (simp add: run_jailed_shell guard_examples jailed_listed_def tr_defs pending_def
      pending_from_append)

end
